theory Spec2Isabelle
  imports Complex_Main "HOL-Library.Sublist"
begin

section \<open>JavaScript values used by the analyzer\<close>

text \<open>
  A JavaScript string is a sequence of UTF-16 code units; \<open>s.length\<close> counts them. The
  labels of the program are Japanese text, so a string is modelled as the list of its code
  units (numbers below 65536) and \<open>length\<close> is the program's \<open>.length\<close>. ASCII
  literals are written through \<open>ascii\<close>.
\<close>

type_synonym jsstring = "nat list"

definition ascii :: "string \<Rightarrow> jsstring" where
  "ascii s = map of_char s"

text \<open>\<open>s.startsWith(p)\<close> and \<open>s.includes(p)\<close> (substring containment).\<close>

definition startsWith :: "jsstring \<Rightarrow> jsstring \<Rightarrow> bool" where
  "startsWith s p = prefix p s"

fun includes_str :: "jsstring \<Rightarrow> jsstring \<Rightarrow> bool" where
  "includes_str [] p = (p = [])"
| "includes_str (c # cs) p = (prefix p (c # cs) \<or> includes_str cs p)"

text \<open>
  \<open>s.trim()\<close> removes leading and trailing white space and line terminators
  (ECMAScript \<open>WhiteSpace\<close> and \<open>LineTerminator\<close>).
\<close>

definition isWhiteSpace :: "nat \<Rightarrow> bool" where
  "isWhiteSpace c =
     (c \<in> {0x0009, 0x000A, 0x000B, 0x000C, 0x000D, 0x0020, 0x00A0, 0x1680, 0x2028, 0x2029,
            0x202F, 0x205F, 0x3000, 0xFEFF}
      \<or> (0x2000 \<le> c \<and> c \<le> 0x200A))"

definition trim :: "jsstring \<Rightarrow> jsstring" where
  "trim s = rev (dropWhile isWhiteSpace (rev (dropWhile isWhiteSpace s)))"

text \<open>\<open>xs.join(sep)\<close> on an array of strings.\<close>

fun join :: "jsstring list \<Rightarrow> jsstring \<Rightarrow> jsstring" where
  "join [] sep = []"
| "join [x] sep = x"
| "join (x # y # ys) sep = x @ sep @ join (y # ys) sep"

text \<open>
  A plain object used as a dictionary (\<open>Record<string, number>\<close>) is an association
  list in insertion order: \<open>Object.entries\<close> enumerates string-named own properties in the
  order of their creation, and an assignment to an existing property keeps its position.
  This is what JavaScript does for plain property names only. A canonical array index
  (the decimal numeral of a number below 4294967295) is enumerated before all other
  names, in numeric order; and a name that \<open>Object.prototype\<close> defines is found by a
  read of \<open>ob[k]\<close> although the object has no such property of its own (and a write to
  \<open>__proto__\<close> creates none). The association list is the object for plain names, and
  every statement about a tally with arbitrary keys carries \<open>plainKey\<close> as a hypothesis
  on its keys. The names the extractors produce (vocabulary words, repository topics
  containing one, language names of the code host, style labels) are plain. Scores and
  counts are integers.
\<close>

definition isDigit :: "nat \<Rightarrow> bool" where
  "isDigit c = (0x30 \<le> c \<and> c \<le> 0x39)"

definition isArrayIndex :: "jsstring \<Rightarrow> bool" where
  "isArrayIndex k =
     (case k of
        [] \<Rightarrow> False
      | c # cs \<Rightarrow>
          list_all isDigit (c # cs) \<and> (cs = [] \<or> c \<noteq> 0x30)
          \<and> foldl (\<lambda>n d. 10 * n + (d - 0x30)) 0 (c # cs) < 4294967295)"

definition objectPrototypeNames :: "jsstring list" where
  "objectPrototypeNames = map ascii
     [''constructor'', ''__defineGetter__'', ''__defineSetter__'', ''hasOwnProperty'',
      ''__lookupGetter__'', ''__lookupSetter__'', ''isPrototypeOf'', ''propertyIsEnumerable'',
      ''toString'', ''valueOf'', ''__proto__'', ''toLocaleString'']"

definition plainKey :: "jsstring \<Rightarrow> bool" where
  "plainKey k = (\<not> isArrayIndex k \<and> k \<notin> set objectPrototypeNames)"

type_synonym 'v obj = "(jsstring \<times> 'v) list"

fun obj_get :: "'v obj \<Rightarrow> jsstring \<Rightarrow> 'v option" where
  "obj_get [] k = None"
| "obj_get (p # ps) k = (if fst p = k then Some (snd p) else obj_get ps k)"

fun obj_set :: "'v obj \<Rightarrow> jsstring \<Rightarrow> 'v \<Rightarrow> 'v obj" where
  "obj_set [] k v = [(k, v)]"
| "obj_set (p # ps) k v = (if fst p = k then (k, v) # ps else p # obj_set ps k v)"

definition entries :: "'v obj \<Rightarrow> (jsstring \<times> 'v) list" where
  "entries ob = ob"

definition keys :: "'v obj \<Rightarrow> jsstring list" where
  "keys ob = map fst ob"

definition fromEntries :: "(jsstring \<times> 'v) list \<Rightarrow> 'v obj" where
  "fromEntries es = foldl (\<lambda>ob e. obj_set ob (fst e) (snd e)) [] es"

text \<open>\<open>x || 0\<close> on a possibly missing number: a missing property and 0 both give 0.\<close>

definition or_zero :: "int option \<Rightarrow> int" where
  "or_zero x = (case x of None \<Rightarrow> 0 | Some v \<Rightarrow> if v = 0 then 0 else v)"

text \<open>\<open>ob[k] = (ob[k] || 0) + n\<close>, the tally update used throughout.\<close>

definition bump :: "int obj \<Rightarrow> jsstring \<Rightarrow> int \<Rightarrow> int obj" where
  "bump ob k n = obj_set ob k (or_zero (obj_get ob k) + n)"

text \<open>
  A \<open>Set<string>\<close> keeps its elements in insertion order without duplicates;
  \<open>Array.from\<close> reads them in that order, so the set is modelled by that array.
\<close>

definition set_add :: "jsstring list \<Rightarrow> jsstring \<Rightarrow> jsstring list" where
  "set_add s x = (if x \<in> set s then s else s @ [x])"

text \<open>
  \<open>Array.prototype.sort(cmp)\<close> is a stable sort: elements that compare equal keep their
  order. It is modelled by stable insertion, which yields the same array for a consistent
  comparator.
\<close>

fun sort_insert :: "('a \<Rightarrow> 'a \<Rightarrow> 'n::{zero,ord}) \<Rightarrow> 'a \<Rightarrow> 'a list \<Rightarrow> 'a list" where
  "sort_insert cmp x [] = [x]"
| "sort_insert cmp x (y # ys) = (if cmp x y \<le> 0 then x # y # ys else y # sort_insert cmp x ys)"

definition js_sort :: "('a \<Rightarrow> 'a \<Rightarrow> 'n::{zero,ord}) \<Rightarrow> 'a list \<Rightarrow> 'a list" where
  "js_sort cmp xs = foldr (sort_insert cmp) xs []"

text \<open>The comparator \<open>(a, b) => b[1] - a[1]\<close>: descending by score.\<close>

definition sortByScore :: "jsstring \<times> int \<Rightarrow> jsstring \<times> int \<Rightarrow> int" where
  "sortByScore a b = snd b - snd a"

section \<open>Data model (types.ts)\<close>

datatype Platform = GITHUB | TWITTER | SPEAKERDECK | BLOG

record TechStack =
  languages :: "int obj"
  frameworks :: "int obj"
  tools :: "int obj"
  topics :: "jsstring list"

text \<open>\<open>Partial<TechStack>\<close>: every field may be missing.\<close>

record PartialTechStack =
  opt_languages :: "int obj option"
  opt_frameworks :: "int obj option"
  opt_tools :: "int obj option"
  opt_topics :: "jsstring list option"

record Communication =
  style :: "jsstring option"
  frequency :: "real option"
  comm_topics :: "jsstring list option"

record Personality =
  interests :: "jsstring list"
  activities :: "jsstring list"
  communication :: Communication
  workStyle :: "jsstring option"

text \<open>\<open>Partial<Personality>\<close>.\<close>

record PartialPersonality =
  opt_interests :: "jsstring list option"
  opt_activities :: "jsstring list option"
  opt_communication :: "Communication option"
  opt_workStyle :: "jsstring option"

text \<open>
  The opaque \<open>rawData\<close> payload is kept for diagnostics only and is read by no function of
  the aggregator; it is left out of the record.
\<close>

record PlatformAnalysis =
  platform :: Platform
  url :: jsstring
  techStack :: PartialTechStack
  personality :: PartialPersonality

record AnalysisResult =
  platforms :: "PlatformAnalysis list"
  res_techStack :: TechStack
  res_personality :: Personality
  summary :: jsstring

record AnalysisRequest =
  github :: "jsstring option"
  twitter :: "jsstring option"
  speakerdeck :: "jsstring option"
  blog :: "jsstring option"

text \<open>Truthiness of an optional string: present and not empty.\<close>

definition truthy :: "jsstring option \<Rightarrow> bool" where
  "truthy x = (case x of None \<Rightarrow> False | Some s \<Rightarrow> s \<noteq> [])"

section \<open>The aggregator (analyzer.ts)\<close>

subsection \<open>mergeTechStacks\<close>

text \<open>The inner loop \<open>for (const [k, score] of Object.entries(t)) acc[k] = (acc[k] || 0) + score\<close>.\<close>

definition addScores :: "int obj \<Rightarrow> int obj \<Rightarrow> int obj" where
  "addScores acc t = foldl (\<lambda>ob e. bump ob (fst e) (snd e)) acc (entries t)"

definition addTopics :: "jsstring list \<Rightarrow> jsstring list \<Rightarrow> jsstring list" where
  "addTopics s ts = foldl set_add s ts"

record TechAcc =
  acc_languages :: "int obj"
  acc_frameworks :: "int obj"
  acc_tools :: "int obj"
  acc_topicsSet :: "jsstring list"

text \<open>One iteration of the loop over the analyses.\<close>

definition mergeTechStep :: "TechAcc \<Rightarrow> PlatformAnalysis \<Rightarrow> TechAcc" where
  "mergeTechStep acc analysis =
     \<lparr> acc_languages =
         (case opt_languages (techStack analysis) of
            None \<Rightarrow> acc_languages acc | Some t \<Rightarrow> addScores (acc_languages acc) t),
       acc_frameworks =
         (case opt_frameworks (techStack analysis) of
            None \<Rightarrow> acc_frameworks acc | Some t \<Rightarrow> addScores (acc_frameworks acc) t),
       acc_tools =
         (case opt_tools (techStack analysis) of
            None \<Rightarrow> acc_tools acc | Some t \<Rightarrow> addScores (acc_tools acc) t),
       acc_topicsSet =
         (case opt_topics (techStack analysis) of
            None \<Rightarrow> acc_topicsSet acc | Some ts \<Rightarrow> addTopics (acc_topicsSet acc) ts) \<rparr>"

text \<open>
  \<open>Object.fromEntries(Object.entries(ob).sort(sortByScore))\<close>; the result is read in
  sorted order when its keys are plain property names.
\<close>

definition sortedObj :: "int obj \<Rightarrow> int obj" where
  "sortedObj ob = fromEntries (js_sort sortByScore (entries ob))"

definition mergeTechStacks :: "PlatformAnalysis list \<Rightarrow> TechStack" where
  "mergeTechStacks analyses =
     (let acc = foldl mergeTechStep
                  \<lparr> acc_languages = [], acc_frameworks = [], acc_tools = [],
                    acc_topicsSet = [] \<rparr> analyses
      in \<lparr> languages = sortedObj (acc_languages acc),
           frameworks = sortedObj (acc_frameworks acc),
           tools = sortedObj (acc_tools acc),
           topics = acc_topicsSet acc \<rparr>)"


subsection \<open>summarizeCommunicationStyle\<close>

definition label_insufficient :: jsstring where
  \<comment> \<open>"cannot be analysed for lack of information"\<close>
  "label_insufficient =
     [0x60C5, 0x5831, 0x4E0D, 0x8DB3, 0x306E, 0x305F, 0x3081, 0x5206, 0x6790, 0x3067, 0x304D,
     0x307E, 0x305B, 0x3093]"

definition kw_technical :: jsstring where
  \<comment> \<open>"technical"\<close>
  "kw_technical =
     [0x6280, 0x8853, 0x7684]"

definition kw_educational :: jsstring where
  \<comment> \<open>"educational"\<close>
  "kw_educational =
     [0x6559, 0x80B2, 0x7684]"

definition kw_leadership :: jsstring where
  \<comment> \<open>"leadership"\<close>
  "kw_leadership =
     [0x30EA, 0x30FC, 0x30C0, 0x30FC, 0x30B7, 0x30C3, 0x30D7]"

definition kw_cooperative :: jsstring where
  \<comment> \<open>"cooperative" (team-oriented)\<close>
  "kw_cooperative =
     [0x5354, 0x8ABF, 0x7684]"

definition kw_individual :: jsstring where
  \<comment> \<open>"individual"\<close>
  "kw_individual =
     [0x500B, 0x4EBA, 0x7684]"

definition kw_concise :: jsstring where
  \<comment> \<open>"concise"\<close>
  "kw_concise =
     [0x7C21, 0x6F54]"

definition kw_detailed :: jsstring where
  \<comment> \<open>"detailed"\<close>
  "kw_detailed =
     [0x8A73, 0x7D30]"

definition kw_balance :: jsstring where
  \<comment> \<open>"balance"\<close>
  "kw_balance =
     [0x30D0, 0x30E9, 0x30F3, 0x30B9]"

definition kw_influence :: jsstring where
  \<comment> \<open>"reach" (influential)\<close>
  "kw_influence =
     [0x767A, 0x4FE1, 0x529B]"

definition txt_katsu :: jsstring where
  \<comment> \<open>"and", joining two keywords\<close>
  "txt_katsu =
     [0x304B, 0x3064]"

definition txt_na_comm_style :: jsstring where
  \<comment> \<open>" communication style"\<close>
  "txt_na_comm_style =
     [0x306A, 0x30B3, 0x30DF, 0x30E5, 0x30CB, 0x30B1, 0x30FC, 0x30B7, 0x30E7, 0x30F3, 0x30B9,
     0x30BF, 0x30A4, 0x30EB]"

text \<open>
  A keyword pattern is a regular expression that is an alternation of literal words, such
  as \<open>/A|B|C/i\<close>: \<open>pattern.test(s)\<close> holds when one of the words occurs in \<open>s\<close>.
  The words are kanji and kana, which have no case variants and are the case mapping of
  no other character, so the flag \<open>i\<close> changes nothing. A pattern is the list of its
  words, paired with its keyword.
\<close>

definition pattern_test :: "jsstring list \<Rightarrow> jsstring \<Rightarrow> bool" where
  "pattern_test alts s = list_ex (includes_str s) alts"

definition keywordPatterns :: "(jsstring list \<times> jsstring) list" where
  "keywordPatterns =
     [([[0x6280, 0x8853], [0x8A73, 0x7D30], [0x89E3, 0x8AAC], [0x30B3, 0x30FC, 0x30C9], [0x5B9F, 0x88C5]],
         kw_technical),
      ([[0x6559, 0x80B2], [0x5171, 0x6709], [0x30C1, 0x30E5, 0x30FC, 0x30C8, 0x30EA, 0x30A2, 0x30EB], [0x5B66, 0x7FD2]],
         kw_educational),
      ([[0x30EA, 0x30FC, 0x30C0, 0x30FC], [0x30DE, 0x30CD, 0x30B8, 0x30E1, 0x30F3, 0x30C8], [0x6226, 0x7565], [0x30D3, 0x30B8, 0x30E7, 0x30F3]],
         kw_leadership),
      ([[0x30C1, 0x30FC, 0x30E0], [0x5354, 0x529B], [0x5354, 0x8ABF], [0x5354, 0x50CD]],
         kw_cooperative),
      ([[0x500B, 0x4EBA], [0x4E00, 0x4EBA], [0x30BD, 0x30ED]],
         kw_individual),
      ([[0x7C21, 0x6F54], [0x30B7, 0x30F3, 0x30D7, 0x30EB]],
         kw_concise),
      ([[0x8A73, 0x7D30], [0x4E01, 0x5BE7], [0x6DF1, 0x3044]],
         kw_detailed),
      ([[0x30D0, 0x30E9, 0x30F3, 0x30B9]],
         kw_balance),
      ([[0x5F71, 0x97FF, 0x529B], [0x767A, 0x4FE1]],
         kw_influence)]"

text \<open>The inner loop over the patterns, for one style string.\<close>

definition countKeywords :: "int obj \<Rightarrow> jsstring \<Rightarrow> int obj" where
  "countKeywords kws s =
     foldl (\<lambda>ob p. if pattern_test (fst p) s then bump ob (snd p) 1 else ob) kws keywordPatterns"

definition summarizeCommunicationStyle :: "jsstring list \<Rightarrow> jsstring" where
  "summarizeCommunicationStyle styles =
     (case styles of
        [] \<Rightarrow> label_insufficient
      | [s] \<Rightarrow> s
      | s # _ \<Rightarrow>
          (let keywords = foldl countKeywords [] styles;
               sortedKeywords = map fst (js_sort sortByScore (entries keywords))
           in case sortedKeywords of
                [] \<Rightarrow> s
              | [k0] \<Rightarrow> k0 @ txt_na_comm_style
              | k0 # k1 # _ \<Rightarrow> k0 @ txt_katsu @ k1 @ txt_na_comm_style))"

subsection \<open>mergePersonalities\<close>

text \<open>Optional chaining: \<open>personality.communication?.style\<close> and its siblings.\<close>

definition commStyle :: "PartialPersonality \<Rightarrow> jsstring option" where
  "commStyle p = (case opt_communication p of None \<Rightarrow> None | Some c \<Rightarrow> style c)"

definition commFrequency :: "PartialPersonality \<Rightarrow> real option" where
  "commFrequency p = (case opt_communication p of None \<Rightarrow> None | Some c \<Rightarrow> frequency c)"

definition commTopics :: "PartialPersonality \<Rightarrow> jsstring list option" where
  "commTopics p = (case opt_communication p of None \<Rightarrow> None | Some c \<Rightarrow> comm_topics c)"

text \<open>
  Numbers are modelled as exact reals (rounding of IEEE doubles is not modelled); a number
  is truthy when it is present and not 0.
\<close>

definition truthy_num :: "real option \<Rightarrow> bool" where
  "truthy_num x = (case x of None \<Rightarrow> False | Some r \<Rightarrow> r \<noteq> 0)"

record PersAcc =
  acc_interestsSet :: "jsstring list"
  acc_activitiesSet :: "jsstring list"
  acc_communicationTopicsSet :: "jsstring list"
  acc_communicationStyles :: "jsstring list"
  acc_communicationFrequency :: real
  acc_workStyles :: "jsstring list"

definition addAll :: "jsstring list \<Rightarrow> jsstring list option \<Rightarrow> jsstring list" where
  "addAll s xs = (case xs of None \<Rightarrow> s | Some ys \<Rightarrow> foldl set_add s ys)"

definition pushIfTruthy :: "jsstring list \<Rightarrow> jsstring option \<Rightarrow> jsstring list" where
  "pushIfTruthy xs x = (case x of None \<Rightarrow> xs | Some s \<Rightarrow> if s \<noteq> [] then xs @ [s] else xs)"

definition mergePersStep :: "PersAcc \<Rightarrow> PlatformAnalysis \<Rightarrow> PersAcc" where
  "mergePersStep acc analysis =
     \<lparr> acc_interestsSet = addAll (acc_interestsSet acc) (opt_interests (personality analysis)),
       acc_activitiesSet = addAll (acc_activitiesSet acc) (opt_activities (personality analysis)),
       acc_communicationTopicsSet =
         addAll (acc_communicationTopicsSet acc) (commTopics (personality analysis)),
       acc_communicationStyles =
         pushIfTruthy (acc_communicationStyles acc) (commStyle (personality analysis)),
       acc_communicationFrequency =
         (case commFrequency (personality analysis) of
            None \<Rightarrow> acc_communicationFrequency acc
          | Some f \<Rightarrow> if f \<noteq> 0 then acc_communicationFrequency acc + f
                     else acc_communicationFrequency acc),
       acc_workStyles = pushIfTruthy (acc_workStyles acc) (opt_workStyle (personality analysis)) \<rparr>"

text \<open>
  The dominant work style: count the labels, sort the entries by count (descending,
  stable) and take the first key; \<open>[0] || undefined\<close> is \<open>undefined\<close> for an empty
  array. The labels are the keys of the tally, which is exact for plain property names.
\<close>

definition dominantWorkStyle :: "jsstring list \<Rightarrow> jsstring option" where
  "dominantWorkStyle workStyles =
     (let workStyleCounts = foldl (\<lambda>ob s. bump ob s 1) [] workStyles
      in case map fst (js_sort sortByScore (entries workStyleCounts)) of
           [] \<Rightarrow> None
         | s # _ \<Rightarrow> if s \<noteq> [] then Some s else None)"

definition mergePersonalities :: "PlatformAnalysis list \<Rightarrow> Personality" where
  "mergePersonalities analyses =
     (let acc = foldl mergePersStep
                  \<lparr> acc_interestsSet = [], acc_activitiesSet = [],
                    acc_communicationTopicsSet = [], acc_communicationStyles = [],
                    acc_communicationFrequency = 0, acc_workStyles = [] \<rparr> analyses;
          avgCommunicationFrequency =
            (if length analyses > 0
             then acc_communicationFrequency acc / real (length analyses) else 0)
      in \<lparr> interests = acc_interestsSet acc,
           activities = acc_activitiesSet acc,
           communication =
             \<lparr> style = Some (summarizeCommunicationStyle (acc_communicationStyles acc)),
               frequency = Some avgCommunicationFrequency,
               comm_topics = Some (acc_communicationTopicsSet acc) \<rparr>,
           workStyle = dominantWorkStyle (acc_workStyles acc) \<rparr>)"

subsection \<open>generateSummary\<close>

definition txt_blog :: jsstring where
  \<comment> \<open>"blog"\<close>
  "txt_blog =
     [0x30D6, 0x30ED, 0x30B0]"

definition txt_sep :: jsstring where
  \<comment> \<open>the ideographic comma\<close>
  "txt_sep =
     [0x3001]"

definition txt_summary_head :: jsstring where
  \<comment> \<open>": summary based on the analysis of ..." and two line feeds\<close>
  "txt_summary_head =
     [0x306E, 0x5206, 0x6790, 0x7D50, 0x679C, 0x306B, 0x57FA, 0x3065, 0x304F, 0x8981, 0x7D04,
     0xFF1A, 0x000A, 0x000A]"

definition txt_techstack_head :: jsstring where
  \<comment> \<open>heading "tech stack"\<close>
  "txt_techstack_head =
     [0x3010, 0x6280, 0x8853, 0x30B9, 0x30BF, 0x30C3, 0x30AF, 0x3011, 0x000A]"

definition txt_main_languages :: jsstring where
  \<comment> \<open>"main languages: "\<close>
  "txt_main_languages =
     [0x30FB, 0x4E3B, 0x306A, 0x4F7F, 0x7528, 0x8A00, 0x8A9E, 0x003A, 0x0020]"

definition txt_main_frameworks :: jsstring where
  \<comment> \<open>"main frameworks: "\<close>
  "txt_main_frameworks =
     [0x30FB, 0x4E3B, 0x306A, 0x30D5, 0x30EC, 0x30FC, 0x30E0, 0x30EF, 0x30FC, 0x30AF, 0x003A,
     0x0020]"

definition txt_main_tools :: jsstring where
  \<comment> \<open>"main tools: "\<close>
  "txt_main_tools =
     [0x30FB, 0x4E3B, 0x306A, 0x30C4, 0x30FC, 0x30EB, 0x003A, 0x0020]"

definition txt_personality_head :: jsstring where
  \<comment> \<open>heading "personality"\<close>
  "txt_personality_head =
     [0x000A, 0x3010, 0x4EBA, 0x3068, 0x306A, 0x308A, 0x3011, 0x000A]"

definition txt_interests :: jsstring where
  \<comment> \<open>"interests: "\<close>
  "txt_interests =
     [0x30FB, 0x8208, 0x5473, 0x30FB, 0x95A2, 0x5FC3, 0x003A, 0x0020]"

definition txt_comm_style :: jsstring where
  \<comment> \<open>"communication style: "\<close>
  "txt_comm_style =
     [0x30FB, 0x30B3, 0x30DF, 0x30E5, 0x30CB, 0x30B1, 0x30FC, 0x30B7, 0x30E7, 0x30F3, 0x30B9,
     0x30BF, 0x30A4, 0x30EB, 0x003A, 0x0020]"

definition txt_work_style :: jsstring where
  \<comment> \<open>"work style: "\<close>
  "txt_work_style =
     [0x30FB, 0x4ED5, 0x4E8B, 0x306E, 0x30B9, 0x30BF, 0x30A4, 0x30EB, 0x003A, 0x0020]"

definition txt_activities_head :: jsstring where
  \<comment> \<open>heading "activities"\<close>
  "txt_activities_head =
     [0x000A, 0x3010, 0x6D3B, 0x52D5, 0x5185, 0x5BB9, 0x3011, 0x000A]"

definition txt_bullet :: jsstring where
  \<comment> \<open>the bullet\<close>
  "txt_bullet =
     [0x30FB]"

definition platformName :: "Platform \<Rightarrow> jsstring" where
  "platformName p =
     (case p of GITHUB \<Rightarrow> ascii ''GitHub'' | TWITTER \<Rightarrow> ascii ''Twitter/X''
      | SPEAKERDECK \<Rightarrow> ascii ''SpeakerDeck'' | BLOG \<Rightarrow> txt_blog)"

text \<open>
  A line \<open>label + items.join(sep) + LF\<close>, written only for a non-empty list, and a line
  \<open>label + value + LF\<close>, written only for a truthy (present, non-empty) string.
\<close>

definition listLine :: "jsstring \<Rightarrow> jsstring list \<Rightarrow> jsstring" where
  "listLine label items = (if length items > 0 then label @ join items txt_sep @ [0x0A] else [])"

definition optLine :: "jsstring \<Rightarrow> jsstring option \<Rightarrow> jsstring" where
  "optLine label x =
     (case x of None \<Rightarrow> [] | Some s \<Rightarrow> if s \<noteq> [] then label @ s @ [0x0A] else [])"

definition activityLines :: "jsstring list \<Rightarrow> jsstring" where
  "activityLines acts =
     concat (map (\<lambda>a. if trim a \<noteq> [] then txt_bullet @ a @ [0x0A] else []) acts)"

definition generateSummary :: "PlatformAnalysis list \<Rightarrow> TechStack \<Rightarrow> Personality \<Rightarrow> jsstring" where
  "generateSummary analyses ts pers =
     (let platformNames = join (map (\<lambda>a. platformName (platform a)) analyses) txt_sep;
          topLanguages = take 3 (keys (languages ts));
          topFrameworks = take 3 (keys (frameworks ts));
          topTools = take 3 (keys (tools ts));
          topInterests = take 5 (interests pers)
      in platformNames @ txt_summary_head
         @ txt_techstack_head
         @ listLine txt_main_languages topLanguages
         @ listLine txt_main_frameworks topFrameworks
         @ listLine txt_main_tools topTools
         @ txt_personality_head
         @ listLine txt_interests topInterests
         @ optLine txt_comm_style (style (communication pers))
         @ optLine txt_work_style (workStyle pers)
         @ (if length (activities pers) > 0
            then txt_activities_head @ activityLines (take 3 (activities pers)) else []))"

subsection \<open>analyze\<close>

text \<open>
  A thrown value is an error object with a name and a message; \<open>`${error}`\<close> renders
  it as \<open>Error.prototype.toString\<close> does.
\<close>

datatype js_error = JsError (err_name: jsstring) (err_message: jsstring)

definition error_toString :: "js_error \<Rightarrow> jsstring" where
  "error_toString e =
     (if err_name e = [] then err_message e
      else if err_message e = [] then err_name e
      else err_name e @ ascii '': '' @ err_message e)"

text \<open>
  The four platform services are external collaborators: each is a function from the URL
  to the analysis it resolves to, or to the error it throws. The analyzer awaits them one
  after the other; the list of extractor calls it makes is returned beside the result.
\<close>

record Services =
  githubService :: "jsstring \<Rightarrow> js_error + PlatformAnalysis"
  twitterService :: "jsstring \<Rightarrow> js_error + PlatformAnalysis"
  speakerDeckService :: "jsstring \<Rightarrow> js_error + PlatformAnalysis"
  blogService :: "jsstring \<Rightarrow> js_error + PlatformAnalysis"

type_synonym extractor_call = "Platform \<times> jsstring"

text \<open>
  One block \<open>if (request.p) { try { push(await service.analyze(request.p)) } catch { log } }\<close>.
\<close>

definition runExtractor ::
  "Platform \<Rightarrow> (jsstring \<Rightarrow> js_error + PlatformAnalysis) \<Rightarrow> jsstring option \<Rightarrow>
   extractor_call list \<times> PlatformAnalysis list \<Rightarrow> extractor_call list \<times> PlatformAnalysis list" where
  "runExtractor p service u st =
     (case u of
        None \<Rightarrow> st
      | Some s \<Rightarrow>
          if s = [] then st
          else (case service s of
                  Inl e \<Rightarrow> (fst st @ [(p, s)], snd st)
                | Inr a \<Rightarrow> (fst st @ [(p, s)], snd st @ [a])))"

definition runExtractors ::
  "Services \<Rightarrow> AnalysisRequest \<Rightarrow> extractor_call list \<times> PlatformAnalysis list" where
  "runExtractors svc request =
     runExtractor BLOG (blogService svc) (blog request)
       (runExtractor SPEAKERDECK (speakerDeckService svc) (speakerdeck request)
         (runExtractor TWITTER (twitterService svc) (twitter request)
           (runExtractor GITHUB (githubService svc) (github request) ([], []))))"

text \<open>
  The merge and the summary are total on the data model, so the outer \<open>catch\<close> of
  \<open>analyze\<close> has nothing to catch; the result type keeps the error alternative of the
  source.
\<close>

definition analyze :: "Services \<Rightarrow> AnalysisRequest \<Rightarrow> extractor_call list \<times> (js_error + AnalysisResult)" where
  "analyze svc request =
     (let st = runExtractors svc request;
          platformAnalyses = snd st;
          ts = mergeTechStacks platformAnalyses;
          pers = mergePersonalities platformAnalyses;
          text = generateSummary platformAnalyses ts pers
      in (fst st,
          Inr \<lparr> platforms = platformAnalyses, res_techStack = ts, res_personality = pers,
                summary = text \<rparr>))"


section \<open>Regular expressions of the program\<close>

text \<open>
  The regular expressions of the program are built from literals, options, alternatives
  and one repeated character class. A matcher maps the input to the list of the inputs
  that remain after each way of matching, in the order in which a backtracking matcher
  tries them (greedy first).
\<close>

type_synonym matcher = "jsstring \<Rightarrow> jsstring list"

definition re_lit :: "jsstring \<Rightarrow> matcher" where
  "re_lit p s = (if prefix p s then [drop (length p) s] else [])"

definition re_opt :: "matcher \<Rightarrow> matcher" where
  "re_opt m s = m s @ [s]"

definition re_alt :: "matcher \<Rightarrow> matcher \<Rightarrow> matcher" where
  "re_alt m1 m2 s = m1 s @ m2 s"

definition re_seq :: "matcher \<Rightarrow> matcher \<Rightarrow> matcher" where
  "re_seq m1 m2 s = concat (map m2 (m1 s))"

text \<open>\<open>[class]+\<close>: one or more characters of the class, the longest run first.\<close>

fun re_plus :: "(nat \<Rightarrow> bool) \<Rightarrow> matcher" where
  "re_plus P [] = []"
| "re_plus P (c # cs) = (if P c then re_plus P cs @ [cs] else [])"

text \<open>\<open>$\<close> without the flag \<open>m\<close>: the end of the input.\<close>

definition re_end :: matcher where
  "re_end s = (if s = [] then [[]] else [])"

definition re_seqs :: "matcher list \<Rightarrow> matcher" where
  "re_seqs ms = foldr re_seq ms (\<lambda>s. [s])"

text \<open>\<open>s.match(/^.../)\<close> is truthy when the pattern matches at the start of \<open>s\<close>.\<close>

definition re_test :: "matcher \<Rightarrow> jsstring \<Rightarrow> bool" where
  "re_test m s = (m s \<noteq> [])"

text \<open>
  A pattern without \<open>^\<close> is tried at every position from the left. The patterns that
  extract a username end in a group \<open>([class]+)\<close>: the group takes the longest run of
  characters of the class, which must not be empty.
\<close>

definition re_group_plus :: "matcher \<Rightarrow> (nat \<Rightarrow> bool) \<Rightarrow> jsstring \<Rightarrow> jsstring option" where
  "re_group_plus m P s =
     (case filter (\<lambda>u. u \<noteq> []) (map (takeWhile P) (m s)) of [] \<Rightarrow> None | u # _ \<Rightarrow> Some u)"

fun re_search :: "(jsstring \<Rightarrow> 'a option) \<Rightarrow> jsstring \<Rightarrow> 'a option" where
  "re_search m [] = m []"
| "re_search m (c # cs) = (case m (c # cs) of Some r \<Rightarrow> Some r | None \<Rightarrow> re_search m cs)"

definition notSlash :: "nat \<Rightarrow> bool" where
  "notSlash c = (c \<noteq> 0x2F)"

definition notSlashQuery :: "nat \<Rightarrow> bool" where
  "notSlashQuery c = (c \<noteq> 0x2F \<and> c \<noteq> 0x3F)"

section \<open>The microblog extractor (TwitterService)\<close>

record TweetEntities =
  hashtags :: "jsstring list option"
  mentions :: "jsstring list option"

text \<open>
  A post as the API returns it: \<open>hashtags\<close> holds the \<open>tag\<close> of each hashtag entity,
  \<open>mentions\<close> the \<open>username\<close> of each mention, \<open>referenced_tweets\<close> the \<open>type\<close> of each
  reference, and \<open>created_at\<close> the time \<open>new Date(created_at).getTime()\<close> in milliseconds.
\<close>

record Tweet =
  tweet_text :: "jsstring option"
  tweet_entities :: "TweetEntities option"
  referenced_tweets :: "jsstring list option"
  created_at :: "real option"

text \<open>The \<open>data\<close> of a user lookup.\<close>

record UserData =
  user_id :: jsstring
  description :: "jsstring option"
  followers_count :: "int option"

text \<open>
  The API client, present only when a token is configured: the \<open>data\<close> of the user
  lookup (which may be missing) and the \<open>data.data\<close> of the timeline (which may be
  missing), or the error the call throws.
\<close>

record TwitterApi =
  userByUsername :: "jsstring \<Rightarrow> js_error + UserData option"
  userTimeline :: "jsstring \<Rightarrow> js_error + Tweet list option"

text \<open>The pattern \<^verbatim>\<open>/(?:twitter|x)\.com\/([^\/\?]+)/\<close> of \<open>extractUsername\<close>.\<close>

definition twitter_username_re :: "jsstring \<Rightarrow> jsstring option" where
  "twitter_username_re =
     re_group_plus
       (re_seq (re_alt (re_lit (ascii ''twitter'')) (re_lit (ascii ''x''))) (re_lit (ascii ''.com/'')))
       notSlashQuery"

definition TwitterService_extractUsername :: "jsstring \<Rightarrow> js_error + jsstring" where
  "TwitterService_extractUsername u =
     (case re_search twitter_username_re u of
        None \<Rightarrow> Inl (JsError (ascii ''Error'') (ascii ''Invalid Twitter/X URL''))
      | Some name \<Rightarrow> Inr name)"

text \<open>
  \<open>toLowerCase\<close> on the letters A to Z; the vocabularies are ASCII, and the case mapping
  of other characters is not modelled.
\<close>

definition toLowerCase :: "jsstring \<Rightarrow> jsstring" where
  "toLowerCase s = map (\<lambda>c. if 0x41 \<le> c \<and> c \<le> 0x5A then c + 0x20 else c) s"

definition techKeywords :: "jsstring list" where
  "techKeywords = map ascii
     [''javascript'', ''typescript'', ''python'', ''java'', ''ruby'', ''go'', ''rust'',
      ''c#'', ''php'', ''react'', ''vue'', ''angular'', ''svelte'', ''node'', ''deno'',
      ''rails'', ''django'', ''laravel'', ''aws'', ''azure'', ''gcp'', ''cloud'', ''docker'',
      ''kubernetes'', ''devops'', ''cicd'', ''ai'', ''ml'', ''machinelearning'',
      ''deeplearning'', ''data'', ''analytics'', ''web'', ''mobile'', ''frontend'',
      ''backend'', ''fullstack'', ''database'', ''sql'', ''nosql'', ''security'',
      ''blockchain'', ''crypto'', ''iot'', ''ar'', ''vr'']"

definition techAccounts :: "jsstring list" where
  "techAccounts = map ascii [''github'', ''stackoverflow'', ''nodejs'', ''reactjs'']"

text \<open>One iteration of the loop of \<open>extractTopicsFromTweets\<close>.\<close>

definition topicsOfTweet :: "jsstring list \<Rightarrow> Tweet \<Rightarrow> jsstring list" where
  "topicsOfTweet topics0 tweet =
     (if \<not> truthy (tweet_text tweet) then topics0
      else
        let text = toLowerCase (case tweet_text tweet of None \<Rightarrow> [] | Some t \<Rightarrow> t);
            topics1 = foldl (\<lambda>s kw. if includes_str text kw then set_add s kw else s)
                        topics0 techKeywords
        in case tweet_entities tweet of
             None \<Rightarrow> topics1
           | Some en \<Rightarrow>
               (let topics2 =
                      (case hashtags en of
                         None \<Rightarrow> topics1
                       | Some tags \<Rightarrow>
                           foldl (\<lambda>s tg. if list_ex (includes_str (toLowerCase tg)) techKeywords
                                         then set_add s (toLowerCase tg) else s) topics1 tags)
                in case mentions en of
                     None \<Rightarrow> topics2
                   | Some ms \<Rightarrow>
                       foldl (\<lambda>s m. if list_ex (includes_str (toLowerCase m)) techAccounts
                                    then set_add s (toLowerCase m) else s) topics2 ms))"

definition extractTopicsFromTweets :: "Tweet list \<Rightarrow> jsstring list" where
  "extractTopicsFromTweets tweets = foldl topicsOfTweet [] tweets"

definition extractHashtags :: "Tweet list \<Rightarrow> jsstring list" where
  "extractHashtags tweets =
     foldl (\<lambda>s tweet.
              case tweet_entities tweet of
                None \<Rightarrow> s
              | Some en \<Rightarrow>
                  (case hashtags en of
                     None \<Rightarrow> s
                   | Some tags \<Rightarrow> foldl (\<lambda>s' tg. set_add s' (toLowerCase tg)) s tags))
       [] tweets"

definition label_influencer :: jsstring where
  \<comment> \<open>"an influential voice"\<close>
  "label_influencer =
     [0x5F71, 0x97FF, 0x529B, 0x306E, 0x3042, 0x308B, 0x767A, 0x4FE1, 0x8005]"

definition label_sharing :: jsstring where
  \<comment> \<open>"information-sharing type"\<close>
  "label_sharing =
     [0x60C5, 0x5831, 0x5171, 0x6709, 0x578B]"

definition label_dialogue :: jsstring where
  \<comment> \<open>"dialogue-focused type"\<close>
  "label_dialogue =
     [0x5BFE, 0x8A71, 0x91CD, 0x8996, 0x578B]"

definition label_prefers_detail :: jsstring where
  \<comment> \<open>"prefers detailed explanation"\<close>
  "label_prefers_detail =
     [0x8A73, 0x7D30, 0x306A, 0x8AAC, 0x660E, 0x3092, 0x597D, 0x3080, 0x30B9, 0x30BF, 0x30A4,
     0x30EB]"

definition label_prefers_concise :: jsstring where
  \<comment> \<open>"prefers concise posts"\<close>
  "label_prefers_concise =
     [0x7C21, 0x6F54, 0x306A, 0x767A, 0x4FE1, 0x3092, 0x597D, 0x3080, 0x30B9, 0x30BF, 0x30A4,
     0x30EB]"

definition label_balanced_comm :: jsstring where
  \<comment> \<open>"balanced communication style"\<close>
  "label_balanced_comm =
     [0x30D0, 0x30E9, 0x30F3, 0x30B9, 0x306E, 0x53D6, 0x308C, 0x305F, 0x30B3, 0x30DF, 0x30E5,
     0x30CB, 0x30B1, 0x30FC, 0x30B7, 0x30E7, 0x30F3, 0x30B9, 0x30BF, 0x30A4, 0x30EB]"

definition msg_twitter_failed :: jsstring where
  \<comment> \<open>"an error occurred during the Twitter analysis: "\<close>
  "msg_twitter_failed =
     [0x0054, 0x0077, 0x0069, 0x0074, 0x0074, 0x0065, 0x0072, 0x5206, 0x6790, 0x4E2D, 0x306B,
     0x30A8, 0x30E9, 0x30FC, 0x304C, 0x767A, 0x751F, 0x3057, 0x307E, 0x3057, 0x305F, 0x003A,
     0x0020]"

definition isRetweet :: "Tweet \<Rightarrow> bool" where
  "isRetweet t = (case tweet_text t of None \<Rightarrow> False | Some s \<Rightarrow> startsWith s (ascii ''RT @''))"

definition isReply :: "Tweet \<Rightarrow> bool" where
  "isReply t =
     (case referenced_tweets t of
        None \<Rightarrow> False | Some rts \<Rightarrow> list_ex (\<lambda>ty. ty = ascii ''replied_to'') rts)"

definition textLength :: "Tweet \<Rightarrow> nat" where
  "textLength t = (case tweet_text t of None \<Rightarrow> 0 | Some s \<Rightarrow> length s)"

text \<open>\<open>userData\<close> is \<open>null\<close> (here \<open>None\<close>) when no client is configured.\<close>

definition TwitterService_analyzeCommStyle :: "UserData option \<Rightarrow> Tweet list \<Rightarrow> jsstring" where
  "TwitterService_analyzeCommStyle userData tweets =
     (case userData of
        None \<Rightarrow> label_insufficient
      | Some d \<Rightarrow>
          if length tweets = 0 then label_insufficient
          else
            let followers = or_zero (followers_count d);
                retweetCount = length (filter isRetweet tweets);
                retweetRatio =
                  (if length tweets > 0 then real retweetCount / real (length tweets) else 0);
                replyCount = length (filter isReply tweets);
                replyRatio =
                  (if length tweets > 0 then real replyCount / real (length tweets) else 0);
                avgLength =
                  real (sum_list (map textLength tweets))
                    / real (if length tweets = 0 then 1 else length tweets)
            in if followers > 5000 then label_influencer
               else if retweetRatio > 7 / 10 then label_sharing
               else if replyRatio > 5 / 10 then label_dialogue
               else if avgLength > 200 then label_prefers_detail
               else if avgLength < 100 then label_prefers_concise
               else label_balanced_comm)"

definition calculateTweetFrequency :: "Tweet list \<Rightarrow> real" where
  "calculateTweetFrequency tweets =
     (if length tweets = 0 then 0
      else
        let dates = js_sort (\<lambda>a b. a - b) (List.map_filter created_at tweets)
        in if length dates < 2 then real (length tweets)
           else
             let oldestDate = dates ! 0;
                 newestDate = dates ! (length dates - 1);
                 daysDiff = (newestDate - oldestDate) / (1000 * 60 * 60 * 24)
             in if daysDiff > 0 then real (length tweets) / daysDiff else real (length tweets))"

text \<open>
  The calls inside \<open>try\<close>: without a client there is no call at all, \<open>userData\<close> stays
  \<open>null\<close> and \<open>tweets\<close> stays empty. With a client, a user lookup without \<open>data\<close>
  makes \<open>userData.data.id\<close> throw a \<open>TypeError\<close>.
\<close>

definition fetchTwitter :: "TwitterApi option \<Rightarrow> jsstring \<Rightarrow> js_error + (UserData option \<times> Tweet list)" where
  "fetchTwitter client username =
     (case client of
        None \<Rightarrow> Inr (None, [])
      | Some api \<Rightarrow>
          (case userByUsername api username of
             Inl e \<Rightarrow> Inl e
           | Inr None \<Rightarrow>
               Inl (JsError (ascii ''TypeError'')
                      (ascii ''Cannot read properties of undefined (reading 'id')''))
           | Inr (Some d) \<Rightarrow>
               (case userTimeline api (user_id d) of
                  Inl e \<Rightarrow> Inl e
                | Inr timeline \<Rightarrow>
                    Inr (Some d, case timeline of None \<Rightarrow> [] | Some ts \<Rightarrow> ts))))"

definition twitterAnalysis :: "jsstring \<Rightarrow> UserData option \<Rightarrow> Tweet list \<Rightarrow> PlatformAnalysis" where
  "twitterAnalysis u userData tweets =
     (let topics = extractTopicsFromTweets tweets;
          hashtags = extractHashtags tweets
      in \<lparr> platform = TWITTER,
           url = u,
           techStack =
             \<lparr> opt_languages = None, opt_frameworks = None, opt_tools = None,
               opt_topics = Some topics \<rparr>,
           personality =
             \<lparr> opt_interests = Some (take 10 hashtags),
               opt_activities =
                 Some (case userData of
                         None \<Rightarrow> []
                       | Some d \<Rightarrow> if truthy (description d)
                                  then [case description d of None \<Rightarrow> [] | Some t \<Rightarrow> t] else []),
               opt_communication =
                 Some \<lparr> style = Some (TwitterService_analyzeCommStyle userData tweets),
                        frequency = Some (calculateTweetFrequency tweets),
                        comm_topics = Some (take 5 topics) \<rparr>,
               opt_workStyle = None \<rparr> \<rparr>)"

text \<open>
  \<open>analyze\<close>: the username is extracted outside \<open>try\<close>, so its error is thrown as it
  is; an error inside \<open>try\<close> is wrapped in a new error.
\<close>

definition TwitterService_analyze :: "TwitterApi option \<Rightarrow> jsstring \<Rightarrow> js_error + PlatformAnalysis" where
  "TwitterService_analyze client u =
     (case TwitterService_extractUsername u of
        Inl e \<Rightarrow> Inl e
      | Inr username \<Rightarrow>
          (case fetchTwitter client username of
             Inl e \<Rightarrow> Inl (JsError (ascii ''Error'') (msg_twitter_failed @ error_toString e))
           | Inr (userData, tweets) \<Rightarrow> Inr (twitterAnalysis u userData tweets)))"

section \<open>The code-host extractor (GitHubService): communication style\<close>

definition label_open_documented :: jsstring where
  \<comment> \<open>"open, values detailed documentation"\<close>
  "label_open_documented =
     [0x30AA, 0x30FC, 0x30D7, 0x30F3, 0x3067, 0x8A73, 0x7D30, 0x306A, 0x30C9, 0x30AD, 0x30E5,
     0x30E1, 0x30F3, 0x30C8, 0x3092, 0x91CD, 0x8996, 0x3059, 0x308B, 0x30B9, 0x30BF, 0x30A4,
     0x30EB]"

definition label_collaborative :: jsstring where
  \<comment> \<open>"collaborative style"\<close>
  "label_collaborative =
     [0x5354, 0x8ABF, 0x7684, 0x306A, 0x30B9, 0x30BF, 0x30A4, 0x30EB]"

definition label_prolific :: jsstring where
  \<comment> \<open>"works on many projects, exploratory"\<close>
  "label_prolific =
     [0x591A, 0x304F, 0x306E, 0x30D7, 0x30ED, 0x30B8, 0x30A7, 0x30AF, 0x30C8, 0x306B, 0x53D6,
     0x308A, 0x7D44, 0x3080, 0x63A2, 0x7A76, 0x5FC3, 0x65FA, 0x76DB, 0x306A, 0x30B9, 0x30BF,
     0x30A4, 0x30EB]"

definition label_personal_dev :: jsstring where
  \<comment> \<open>"focused on personal development"\<close>
  "label_personal_dev =
     [0x500B, 0x4EBA, 0x7684, 0x306A, 0x958B, 0x767A, 0x306B, 0x96C6, 0x4E2D, 0x3059, 0x308B,
     0x30B9, 0x30BF, 0x30A4, 0x30EB]"

text \<open>
  The fields of a repository of the code host's API that \<open>analyzeCommStyle\<close> reads.
  \<open>contributors_url\<close> is a string: the URL of the endpoint that lists the contributors.
\<close>

record Repo =
  repo_description :: "jsstring option"
  contributors_url :: "jsstring option"
  stargazers_count :: "int option"

definition GitHubService_analyzeCommStyle :: "Repo list \<Rightarrow> jsstring" where
  "GitHubService_analyzeCommStyle repos =
     (let hasDetailedReadmes =
            list_ex (\<lambda>r. case repo_description r of
                            None \<Rightarrow> False | Some t \<Rightarrow> t \<noteq> [] \<and> length t > 100) repos;
          hasMultipleContributors =
            list_ex (\<lambda>r. case contributors_url r of
                            None \<Rightarrow> False | Some c \<Rightarrow> c \<noteq> [] \<and> length c > 1) repos;
          hasManyStars =
            list_ex (\<lambda>r. case stargazers_count r of None \<Rightarrow> False | Some n \<Rightarrow> n > 50) repos
      in if hasManyStars \<and> hasDetailedReadmes then label_open_documented
         else if hasMultipleContributors then label_collaborative
         else if length repos > 20 then label_prolific
         else label_personal_dev)"


section \<open>The blog extractor (BlogService)\<close>

subsection \<open>extractDomain\<close>

text \<open>
  \<open>new URL(url)\<close> runs the URL parser of the platform without a base URL. Its first
  steps are modelled: leading and trailing C0 controls and spaces are removed, tabs and
  newlines are removed, and the input must then start with a scheme (a letter, then
  letters, digits, \<open>+\<close>, \<open>-\<close> or \<open>.\<close>, then a colon); as there is no base URL, an input
  without a scheme is a failure and the constructor throws. The remaining states of the
  parser are the parameter \<open>rest\<close>, which gives the host name or fails.
\<close>

definition isC0OrSpace :: "nat \<Rightarrow> bool" where
  "isC0OrSpace c = (c \<le> 0x20)"

definition isTabOrNewline :: "nat \<Rightarrow> bool" where
  "isTabOrNewline c = (c = 0x09 \<or> c = 0x0A \<or> c = 0x0D)"

definition isAsciiAlpha :: "nat \<Rightarrow> bool" where
  "isAsciiAlpha c = ((0x41 \<le> c \<and> c \<le> 0x5A) \<or> (0x61 \<le> c \<and> c \<le> 0x7A))"

definition isSchemeChar :: "nat \<Rightarrow> bool" where
  "isSchemeChar c =
     (isAsciiAlpha c \<or> (0x30 \<le> c \<and> c \<le> 0x39) \<or> c = 0x2B \<or> c = 0x2D \<or> c = 0x2E)"

definition hasScheme :: "jsstring \<Rightarrow> bool" where
  "hasScheme s =
     (case s of
        [] \<Rightarrow> False
      | c # cs \<Rightarrow>
          isAsciiAlpha c
          \<and> (case dropWhile isSchemeChar cs of [] \<Rightarrow> False | e # _ \<Rightarrow> e = 0x3A))"

definition URL_hostname :: "(jsstring \<Rightarrow> jsstring option) \<Rightarrow> jsstring \<Rightarrow> jsstring option" where
  "URL_hostname rest u =
     (let stripped = rev (dropWhile isC0OrSpace (rev (dropWhile isC0OrSpace u)));
          input = filter (\<lambda>c. \<not> isTabOrNewline c) stripped
      in if hasScheme input then rest input else None)"

definition BlogService_extractDomain :: "(jsstring \<Rightarrow> jsstring option) \<Rightarrow> jsstring \<Rightarrow> js_error + jsstring" where
  "BlogService_extractDomain rest u =
     (case URL_hostname rest u of
        None \<Rightarrow> Inl (JsError (ascii ''Error'') (ascii ''Invalid Blog URL''))
      | Some host \<Rightarrow> Inr host)"

definition msg_blog_failed :: jsstring where
  \<comment> \<open>"an error occurred during the blog analysis: "\<close>
  "msg_blog_failed =
     [0x30D6, 0x30ED, 0x30B0, 0x5206, 0x6790, 0x4E2D, 0x306B, 0x30A8, 0x30E9, 0x30FC, 0x304C,
     0x767A, 0x751F, 0x3057, 0x307E, 0x3057, 0x305F, 0x003A, 0x0020]"

text \<open>
  \<open>analyze\<close>: the domain is extracted first, outside \<open>try\<close>. The \<open>try\<close> block, which
  fetches the page and analyses it, is the parameter \<open>body\<close> (the page fetch and the
  markup queries are external collaborators); an error it throws is wrapped.
\<close>

definition BlogService_analyze ::
  "(jsstring \<Rightarrow> jsstring option) \<Rightarrow> (jsstring \<Rightarrow> jsstring \<Rightarrow> js_error + PlatformAnalysis) \<Rightarrow>
   jsstring \<Rightarrow> js_error + PlatformAnalysis" where
  "BlogService_analyze rest body u =
     (case BlogService_extractDomain rest u of
        Inl e \<Rightarrow> Inl e
      | Inr domain \<Rightarrow>
          (case body u domain of
             Inl e \<Rightarrow> Inl (JsError (ascii ''Error'') (msg_blog_failed @ error_toString e))
           | Inr a \<Rightarrow> Inr a))"

subsection \<open>Article discovery\<close>

text \<open>
  The parsed page is seen through the queries the code makes. For an element matched by
  a structural selector: the text of its first heading \<open>h1, h2, h3\<close> (empty when there
  is none), the \<open>href\<close> of its first link, its text, the \<open>datetime\<close> of its \<open>time\<close>
  element and the text of its date elements. For a link of the page: its \<open>href\<close> and
  its text. \<open>select\<close> gives the elements a selector matches, in document order.
\<close>

record Element =
  el_heading :: jsstring
  el_href :: "jsstring option"
  el_text :: jsstring
  el_datetime :: "jsstring option"
  el_date_text :: jsstring

record Anchor =
  a_href :: "jsstring option"
  a_text :: jsstring

record Document =
  select :: "jsstring \<Rightarrow> Element list"
  anchors :: "Anchor list"

record Article =
  title :: jsstring
  article_url :: jsstring
  content :: jsstring
  date :: "jsstring option"

text \<open>
  \<open>normalizeUrl\<close>: \<open>new URL(href, baseUrl).toString()\<close>, or \<open>href\<close> itself when that
  throws. The resolution of a reference against a base is the parameter \<open>resolve\<close>.
\<close>

definition normalizeUrl :: "(jsstring \<Rightarrow> jsstring \<Rightarrow> jsstring option) \<Rightarrow> jsstring \<Rightarrow> jsstring \<Rightarrow> jsstring" where
  "normalizeUrl resolve href baseUrl =
     (case resolve href baseUrl of None \<Rightarrow> href | Some u \<Rightarrow> u)"

definition articleSelectors :: "jsstring list" where
  "articleSelectors = map ascii
     [''article'', ''.post'', ''.entry'', ''.blog-post'', ''.blog-entry'',
      ''.post-content'', ''.entry-content'', ''.article-content'']"

text \<open>\<open>x || y\<close> on strings, where \<open>x\<close> may be missing.\<close>

definition or_str :: "jsstring option \<Rightarrow> jsstring \<Rightarrow> jsstring" where
  "or_str x y = (case x of None \<Rightarrow> y | Some s \<Rightarrow> if s \<noteq> [] then s else y)"

text \<open>The callback of \<open>$(selector).each\<close>: the article an element yields, if any.\<close>

definition articleOf :: "(jsstring \<Rightarrow> jsstring \<Rightarrow> jsstring option) \<Rightarrow> jsstring \<Rightarrow> Element \<Rightarrow> Article option" where
  "articleOf resolve baseUrl el =
     (let articleTitle = trim (el_heading el);
          articleUrl = or_str (el_href el) [];
          articleContent = trim (el_text el);
          articleDate = or_str (el_datetime el) (trim (el_date_text el))
      in if articleTitle \<noteq> [] \<and> articleContent \<noteq> []
         then Some \<lparr> title = articleTitle, article_url = normalizeUrl resolve articleUrl baseUrl,
                     content = articleContent, date = Some articleDate \<rparr>
         else None)"

text \<open>
  The loop over the selectors: the articles of the selector are pushed, and the loop
  breaks as soon as the array is not empty.
\<close>

fun trySelectors ::
  "(jsstring \<Rightarrow> jsstring \<Rightarrow> jsstring option) \<Rightarrow> Document \<Rightarrow> jsstring \<Rightarrow> jsstring list \<Rightarrow>
   Article list \<Rightarrow> Article list" where
  "trySelectors resolve doc baseUrl [] articles = articles"
| "trySelectors resolve doc baseUrl (selector # rest) articles =
     (let articles' = articles @ List.map_filter (articleOf resolve baseUrl) (select doc selector)
      in if length articles' > 0 then articles'
         else trySelectors resolve doc baseUrl rest articles')"

text \<open>The callback of \<open>$('a').each\<close> in the fallback.\<close>

definition stubOf :: "(jsstring \<Rightarrow> jsstring \<Rightarrow> jsstring option) \<Rightarrow> jsstring \<Rightarrow> Anchor \<Rightarrow> Article option" where
  "stubOf resolve baseUrl a =
     (let text = trim (a_text a)
      in case a_href a of
           None \<Rightarrow> None
         | Some href \<Rightarrow>
             if href \<noteq> [] \<and> text \<noteq> [] \<and> includes_str href (ascii ''/'') \<and> length text > 20
                \<and> \<not> startsWith href (ascii ''http'')
             then Some \<lparr> title = text, article_url = normalizeUrl resolve href baseUrl,
                         content = text, date = None \<rparr>
             else None)"

definition discoverArticles ::
  "(jsstring \<Rightarrow> jsstring \<Rightarrow> jsstring option) \<Rightarrow> Document \<Rightarrow> jsstring \<Rightarrow> Article list" where
  "discoverArticles resolve doc baseUrl =
     (let articles = trySelectors resolve doc baseUrl articleSelectors []
      in if length articles = 0
         then articles @ List.map_filter (stubOf resolve baseUrl) (anchors doc)
         else articles)"

section \<open>The tool call handler (index.ts)\<close>

definition msg_need_url :: jsstring where
  \<comment> \<open>"give at least one URL (GitHub, Twitter/X, SpeakerDeck, blog)"\<close>
  "msg_need_url =
     [0x5C11, 0x306A, 0x304F, 0x3068, 0x3082, 0x0031, 0x3064, 0x306E, 0x0055, 0x0052, 0x004C,
     0x3092, 0x6307, 0x5B9A, 0x3057, 0x3066, 0x304F, 0x3060, 0x3055, 0x3044, 0xFF08, 0x0047,
     0x0069, 0x0074, 0x0048, 0x0075, 0x0062, 0x3001, 0x0054, 0x0077, 0x0069, 0x0074, 0x0074,
     0x0065, 0x0072, 0x002F, 0x0058, 0x3001, 0x0053, 0x0070, 0x0065, 0x0061, 0x006B, 0x0065,
     0x0072, 0x0044, 0x0065, 0x0063, 0x006B, 0x3001, 0x30D6, 0x30ED, 0x30B0, 0xFF09]"

definition msg_bad_github :: jsstring where
  \<comment> \<open>"the GitHub URL is invalid", with an example\<close>
  "msg_bad_github =
     [0x0047, 0x0069, 0x0074, 0x0048, 0x0075, 0x0062, 0x306E, 0x0055, 0x0052, 0x004C, 0x304C,
     0x7121, 0x52B9, 0x3067, 0x3059, 0x3002, 0x4F8B, 0x003A, 0x0020, 0x0068, 0x0074, 0x0074,
     0x0070, 0x0073, 0x003A, 0x002F, 0x002F, 0x0067, 0x0069, 0x0074, 0x0068, 0x0075, 0x0062,
     0x002E, 0x0063, 0x006F, 0x006D, 0x002F, 0x0075, 0x0073, 0x0065, 0x0072, 0x006E, 0x0061,
     0x006D, 0x0065]"

definition msg_bad_twitter :: jsstring where
  \<comment> \<open>"the X (Twitter) URL is invalid", with examples\<close>
  "msg_bad_twitter =
     [0x0058, 0xFF08, 0x0054, 0x0077, 0x0069, 0x0074, 0x0074, 0x0065, 0x0072, 0xFF09, 0x306E,
     0x0055, 0x0052, 0x004C, 0x304C, 0x7121, 0x52B9, 0x3067, 0x3059, 0x3002, 0x4F8B, 0x003A,
     0x0020, 0x0068, 0x0074, 0x0074, 0x0070, 0x0073, 0x003A, 0x002F, 0x002F, 0x0074, 0x0077,
     0x0069, 0x0074, 0x0074, 0x0065, 0x0072, 0x002E, 0x0063, 0x006F, 0x006D, 0x002F, 0x0075,
     0x0073, 0x0065, 0x0072, 0x006E, 0x0061, 0x006D, 0x0065, 0x0020, 0x307E, 0x305F, 0x306F,
     0x0020, 0x0068, 0x0074, 0x0074, 0x0070, 0x0073, 0x003A, 0x002F, 0x002F, 0x0078, 0x002E,
     0x0063, 0x006F, 0x006D, 0x002F, 0x0075, 0x0073, 0x0065, 0x0072, 0x006E, 0x0061, 0x006D,
     0x0065]"

definition msg_bad_speakerdeck :: jsstring where
  \<comment> \<open>"the SpeakerDeck URL is invalid", with an example\<close>
  "msg_bad_speakerdeck =
     [0x0053, 0x0070, 0x0065, 0x0061, 0x006B, 0x0065, 0x0072, 0x0044, 0x0065, 0x0063, 0x006B,
     0x306E, 0x0055, 0x0052, 0x004C, 0x304C, 0x7121, 0x52B9, 0x3067, 0x3059, 0x3002, 0x4F8B,
     0x003A, 0x0020, 0x0068, 0x0074, 0x0074, 0x0070, 0x0073, 0x003A, 0x002F, 0x002F, 0x0073,
     0x0070, 0x0065, 0x0061, 0x006B, 0x0065, 0x0072, 0x0064, 0x0065, 0x0063, 0x006B, 0x002E,
     0x0063, 0x006F, 0x006D, 0x002F, 0x0075, 0x0073, 0x0065, 0x0072, 0x006E, 0x0061, 0x006D,
     0x0065]"

definition msg_analysis_failed :: jsstring where
  \<comment> \<open>"an error occurred during the analysis: "\<close>
  "msg_analysis_failed =
     [0x5206, 0x6790, 0x4E2D, 0x306B, 0x30A8, 0x30E9, 0x30FC, 0x304C, 0x767A, 0x751F, 0x3057,
     0x307E, 0x3057, 0x305F, 0x003A, 0x0020]"

definition msg_unknown_tool :: jsstring where
  \<comment> \<open>"unknown tool: "\<close>
  "msg_unknown_tool =
     [0x672A, 0x77E5, 0x306E, 0x30C4, 0x30FC, 0x30EB, 0x003A, 0x0020]"

datatype ErrorCode = InvalidParams | InternalError | MethodNotFound

datatype McpError = McpError ErrorCode jsstring

text \<open>
  The pattern \<^verbatim>\<open>/^https?:\/\/(www\.)?github\.com\/[^\/]+\/?$/\<close> and its two siblings,
  \<^verbatim>\<open>/^https?:\/\/(www\.)?(twitter|x)\.com\/[^\/]+\/?$/\<close> and
  \<^verbatim>\<open>/^https?:\/\/(www\.)?speakerdeck\.com\/[^\/]+\/?$/\<close>.
\<close>

definition github_url_re :: matcher where
  "github_url_re =
     re_seqs [re_lit (ascii ''http''), re_opt (re_lit (ascii ''s'')), re_lit (ascii ''://''),
              re_opt (re_lit (ascii ''www.'')), re_lit (ascii ''github.com/''),
              re_plus notSlash, re_opt (re_lit (ascii ''/'')), re_end]"

definition twitter_url_re :: matcher where
  "twitter_url_re =
     re_seqs [re_lit (ascii ''http''), re_opt (re_lit (ascii ''s'')), re_lit (ascii ''://''),
              re_opt (re_lit (ascii ''www.'')),
              re_alt (re_lit (ascii ''twitter'')) (re_lit (ascii ''x'')), re_lit (ascii ''.com/''),
              re_plus notSlash, re_opt (re_lit (ascii ''/'')), re_end]"

definition speakerdeck_url_re :: matcher where
  "speakerdeck_url_re =
     re_seqs [re_lit (ascii ''http''), re_opt (re_lit (ascii ''s'')), re_lit (ascii ''://''),
              re_opt (re_lit (ascii ''www.'')), re_lit (ascii ''speakerdeck.com/''),
              re_plus notSlash, re_opt (re_lit (ascii ''/'')), re_end]"

text \<open>\<open>args.p && !args.p.match(re)\<close>: the URL is given and does not have the shape.\<close>

definition malformed :: "matcher \<Rightarrow> jsstring option \<Rightarrow> bool" where
  "malformed re u = (case u of None \<Rightarrow> False | Some s \<Rightarrow> s \<noteq> [] \<and> \<not> re_test re s)"

text \<open>
  The cache maps the key \<open>JSON.stringify(args)\<close> to a summary; the key is modelled by
  the request itself. A call returns the new cache, the extractor calls it made, and
  either the error it throws or the text of its response.
\<close>

type_synonym cache = "AnalysisRequest \<Rightarrow> jsstring option"

definition callTool ::
  "Services \<Rightarrow> cache \<Rightarrow> jsstring \<Rightarrow> AnalysisRequest \<Rightarrow>
   cache \<times> extractor_call list \<times> (McpError + jsstring)" where
  "callTool svc analysisCache name args =
     (if name = ascii ''how-person'' then
        if \<not> truthy (github args) \<and> \<not> truthy (twitter args) \<and> \<not> truthy (speakerdeck args)
           \<and> \<not> truthy (blog args)
        then (analysisCache, [], Inl (McpError InvalidParams msg_need_url))
        else if malformed github_url_re (github args)
        then (analysisCache, [], Inl (McpError InvalidParams msg_bad_github))
        else if malformed twitter_url_re (twitter args)
        then (analysisCache, [], Inl (McpError InvalidParams msg_bad_twitter))
        else if malformed speakerdeck_url_re (speakerdeck args)
        then (analysisCache, [], Inl (McpError InvalidParams msg_bad_speakerdeck))
        else
          (case analysisCache args of
             Some text \<Rightarrow> (analysisCache, [], Inr text)
           | None \<Rightarrow>
               (case analyze svc args of
                  (calls, Inr result) \<Rightarrow>
                    (analysisCache(args \<mapsto> summary result), calls, Inr (summary result))
                | (calls, Inl e) \<Rightarrow>
                    (analysisCache, calls,
                     Inl (McpError InternalError (msg_analysis_failed @ error_toString e)))))
      else (analysisCache, [], Inl (McpError MethodNotFound (msg_unknown_tool @ name))))"


section \<open>Vocabulary of the statements\<close>

text \<open>
  The elements of a list in the order of their first occurrence (\<open>remdups\<close> keeps the
  last occurrence of each element, hence the two reversals).
\<close>

definition firstSeen :: "'a list \<Rightarrow> 'a list" where
  "firstSeen xs = rev (remdups (rev xs))"

text \<open>The sum of the scores that a list of entries gives for a key.\<close>

definition scoreSum :: "(jsstring \<times> int) list \<Rightarrow> jsstring \<Rightarrow> int" where
  "scoreSum es k = sum_list (map snd (filter (\<lambda>e. fst e = k) es))"

text \<open>
  All entries that the platforms report in one field of their tech stack, and all topics
  they report, in the order in which the aggregator meets them.
\<close>

definition reported :: "(PartialTechStack \<Rightarrow> int obj option) \<Rightarrow> PlatformAnalysis list \<Rightarrow> (jsstring \<times> int) list" where
  "reported fld analyses =
     concat (map (\<lambda>a. case fld (techStack a) of None \<Rightarrow> [] | Some t \<Rightarrow> entries t) analyses)"

definition reportedTopics :: "PlatformAnalysis list \<Rightarrow> jsstring list" where
  "reportedTopics analyses =
     concat (map (\<lambda>a. case opt_topics (techStack a) of None \<Rightarrow> [] | Some ts \<Rightarrow> ts) analyses)"

text \<open>
  An object presents a list of reported entries when its keys are distinct, it maps
  exactly the reported keys, each to the sum of its reported scores, its entries descend
  by score, and the keys of equal score stand in the order of their first report.
\<close>

definition presents :: "int obj \<Rightarrow> (jsstring \<times> int) list \<Rightarrow> bool" where
  "presents ob es =
     (distinct (keys ob)
      \<and> (\<forall>k. obj_get ob k = (if k \<in> fst ` set es then Some (scoreSum es k) else None))
      \<and> sorted_wrt (\<lambda>a b. snd a \<ge> snd b) (entries ob)
      \<and> (\<forall>n. map fst (filter (\<lambda>e. snd e = n) (entries ob))
                = filter (\<lambda>k. scoreSum es k = n) (firstSeen (map fst es))))"

text \<open>
  A platform analysis given by its languages, its topics, its communication and its work
  style, with every other field missing; it is used to write the concrete inputs of the
  examples.
\<close>

definition platformWith ::
  "Platform \<Rightarrow> int obj option \<Rightarrow> jsstring list option \<Rightarrow> Communication option \<Rightarrow>
   jsstring option \<Rightarrow> PlatformAnalysis" where
  "platformWith p langs tps comm ws =
     \<lparr> platform = p, url = [],
       techStack = \<lparr> opt_languages = langs, opt_frameworks = None, opt_tools = None,
                     opt_topics = tps \<rparr>,
       personality = \<lparr> opt_interests = None, opt_activities = None,
                       opt_communication = comm, opt_workStyle = ws \<rparr> \<rparr>"

text \<open>A platform analysis given by the three tallies of its tech stack alone.\<close>

definition exampleStack ::
  "Platform \<Rightarrow> int obj \<Rightarrow> int obj \<Rightarrow> int obj \<Rightarrow> PlatformAnalysis" where
  "exampleStack p langs fws tls =
     \<lparr> platform = p, url = [],
       techStack = \<lparr> opt_languages = Some langs, opt_frameworks = Some fws,
                     opt_tools = Some tls, opt_topics = None \<rparr>,
       personality = \<lparr> opt_interests = None, opt_activities = None,
                       opt_communication = None, opt_workStyle = None \<rparr> \<rparr>"

text \<open>The strings of a list of optional strings that are present and not empty, in order.\<close>

definition truthyOnes :: "jsstring option list \<Rightarrow> jsstring list" where
  "truthyOnes xs = concat (map (\<lambda>x. case x of None \<Rightarrow> [] | Some s \<Rightarrow> if s \<noteq> [] then [s] else []) xs)"

text \<open>
  The non-empty work-style labels and the non-empty communication styles that the
  platforms report, in the order of the platforms.
\<close>

definition workStyleLabels :: "PlatformAnalysis list \<Rightarrow> jsstring list" where
  "workStyleLabels analyses = truthyOnes (map (\<lambda>a. opt_workStyle (personality a)) analyses)"

definition styleStrings :: "PlatformAnalysis list \<Rightarrow> jsstring list" where
  "styleStrings analyses = truthyOnes (map (\<lambda>a. commStyle (personality a)) analyses)"

text \<open>
  The number of style strings that match the category with keyword \<open>k\<close>; the entries
  that one style string adds to the keyword tally; and the keywords as
  \<open>summarizeCommunicationStyle\<close> sorts them.
\<close>

definition matchCount :: "jsstring list \<Rightarrow> jsstring \<Rightarrow> nat" where
  "matchCount styles k =
     length (filter (\<lambda>s. list_ex (\<lambda>p. snd p = k \<and> pattern_test (fst p) s) keywordPatterns) styles)"

definition hitsOf :: "jsstring \<Rightarrow> (jsstring \<times> int) list" where
  "hitsOf s = map (\<lambda>p. (snd p, 1)) (filter (\<lambda>p. pattern_test (fst p) s) keywordPatterns)"

definition sortedKeywordsOf :: "jsstring list \<Rightarrow> jsstring list" where
  "sortedKeywordsOf styles =
     map fst (js_sort sortByScore (entries (foldl countKeywords [] styles)))"


text \<open>
  The analyses that one extractor block of \<open>analyze\<close> contributes: none when the URL is
  missing or empty or the extractor throws, the extractor's analysis otherwise.
\<close>

definition succeeded :: "(jsstring \<Rightarrow> js_error + PlatformAnalysis) \<Rightarrow> jsstring option \<Rightarrow> PlatformAnalysis list" where
  "succeeded service u =
     (case u of
        None \<Rightarrow> []
      | Some s \<Rightarrow> if s = [] then [] else (case service s of Inl e \<Rightarrow> [] | Inr a \<Rightarrow> [a]))"

text \<open>
  The extractor calls that a request asks for: one for each URL that is given and not
  empty, in the order code host, microblog, slide deck, blog.
\<close>

definition requested :: "Platform \<Rightarrow> jsstring option \<Rightarrow> extractor_call list" where
  "requested p u = (case u of None \<Rightarrow> [] | Some s \<Rightarrow> if s = [] then [] else [(p, s)])"

definition requestedCalls :: "AnalysisRequest \<Rightarrow> extractor_call list" where
  "requestedCalls args =
     requested GITHUB (github args) @ requested TWITTER (twitter args)
     @ requested SPEAKERDECK (speakerdeck args) @ requested BLOG (blog args)"

text \<open>The summary of an analysis without platforms.\<close>

definition noDataSummary :: jsstring where
  "noDataSummary =
     txt_summary_head @ txt_techstack_head @ txt_personality_head
       @ txt_comm_style @ label_insufficient @ [0x0A]"

text \<open>
  Collaborators for the examples: an extractor and a page analysis that throw on every
  input, and a URL resolution that fails on every input.
\<close>

definition alwaysFails :: "jsstring \<Rightarrow> js_error + PlatformAnalysis" where
  "alwaysFails u = Inl (JsError (ascii ''Error'') (ascii ''request failed''))"

definition failingBody :: "jsstring \<Rightarrow> jsstring \<Rightarrow> js_error + PlatformAnalysis" where
  "failingBody u domain = Inl (JsError (ascii ''Error'') (ascii ''request failed''))"

definition noResolve :: "jsstring \<Rightarrow> jsstring \<Rightarrow> jsstring option" where
  "noResolve href baseUrl = None"

text \<open>
  The articles that a structural selector yields on a page, and the links that the
  fallback of the article discovery accepts: the \<open>href\<close> is present and not empty,
  contains a slash and does not start with \<open>http\<close>, and the trimmed text is longer than
  20 code units.
\<close>

definition yields :: "(jsstring \<Rightarrow> jsstring \<Rightarrow> jsstring option) \<Rightarrow> Document \<Rightarrow> jsstring \<Rightarrow> jsstring \<Rightarrow> Article list" where
  "yields resolve doc baseUrl selector =
     List.map_filter (articleOf resolve baseUrl) (select doc selector)"

definition stubLink :: "Anchor \<Rightarrow> bool" where
  "stubLink a =
     (case a_href a of
        None \<Rightarrow> False
      | Some href \<Rightarrow>
          href \<noteq> [] \<and> includes_str href (ascii ''/'') \<and> \<not> startsWith href (ascii ''http'')
          \<and> 20 < length (trim (a_text a)))"


section \<open>Objects, sets and sorting\<close>

lemma obj_get_map_of: "obj_get ob k = map_of ob k"
  by (induction ob) auto

lemma obj_get_None_iff: "obj_get ob k = None \<longleftrightarrow> k \<notin> fst ` set ob"
  by (induction ob) auto

lemma obj_get_obj_set: "obj_get (obj_set ob k v) k' = (if k' = k then Some v else obj_get ob k')"
  by (induction ob) auto

lemma keys_obj_set: "map fst (obj_set ob k v) = set_add (map fst ob) k"
  by (induction ob) (auto simp: set_add_def)

lemma obj_set_fresh: "k \<notin> fst ` set ob \<Longrightarrow> obj_set ob k v = ob @ [(k, v)]"
  by (induction ob) auto

lemma remdups_snoc: "remdups (zs @ [x]) = remdups (filter (\<lambda>y. y \<noteq> x) zs) @ [x]"
  by (induction zs) auto

lemma firstSeen_Cons: "firstSeen (x # xs) = x # firstSeen (filter (\<lambda>y. y \<noteq> x) xs)"
  by (simp add: firstSeen_def remdups_snoc rev_filter)

lemma firstSeen_Nil [simp]: "firstSeen [] = []"
  by (simp add: firstSeen_def)

lemma set_firstSeen [simp]: "set (firstSeen xs) = set xs"
  by (simp add: firstSeen_def)

lemma distinct_firstSeen [simp]: "distinct (firstSeen xs)"
  by (simp add: firstSeen_def)

lemma foldl_set_add: "foldl set_add s xs = s @ firstSeen (filter (\<lambda>x. x \<notin> set s) xs)"
proof (induction xs arbitrary: s)
  case Nil
  then show ?case by simp
next
  case (Cons x xs)
  show ?case
  proof (cases "x \<in> set s")
    case True
    then show ?thesis using Cons.IH [of s] by (simp add: set_add_def)
  next
    case False
    have "filter (\<lambda>y. y \<notin> set (s @ [x])) xs = filter (\<lambda>y. y \<noteq> x) (filter (\<lambda>y. y \<notin> set s) xs)"
      by (induction xs) auto
    then show ?thesis using False Cons.IH [of "s @ [x]"]
      by (simp add: set_add_def firstSeen_Cons)
  qed
qed

lemma keys_tally:
  "map fst (foldl (\<lambda>ob e. bump ob (fst e) (snd e)) ob es) = foldl set_add (map fst ob) (map fst es)"
  by (induction es arbitrary: ob) (simp_all add: bump_def keys_obj_set)

lemma or_zero_simp: "or_zero x = (case x of None \<Rightarrow> 0 | Some v \<Rightarrow> v)"
  by (simp add: or_zero_def split: option.splits)

lemma scoreSum_absent: "k \<notin> fst ` set es \<Longrightarrow> sum_list (map snd (filter (\<lambda>e. fst e = k) es)) = 0"
  by (induction es) auto

lemma get_tally:
  "obj_get (foldl (\<lambda>ob e. bump ob (fst e) (snd e)) ob es) k =
     (if k \<in> fst ` set es then Some (or_zero (obj_get ob k) + scoreSum es k) else obj_get ob k)"
proof (induction es arbitrary: ob)
  case Nil
  then show ?case by simp
next
  case (Cons e es)
  let ?F = "\<lambda>ob e. bump ob (fst e) (snd e)"
  have "obj_get (foldl ?F ob (e # es)) k = obj_get (foldl ?F (bump ob (fst e) (snd e)) es) k"
    by simp
  also have "\<dots> = (if k \<in> fst ` set es
      then Some (or_zero (obj_get (bump ob (fst e) (snd e)) k) + scoreSum es k)
      else obj_get (bump ob (fst e) (snd e)) k)"
    by (rule Cons.IH)
  also have "\<dots> = (if k \<in> fst ` set (e # es)
      then Some (or_zero (obj_get ob k) + scoreSum (e # es) k) else obj_get ob k)"
    by (auto simp: bump_def obj_get_obj_set scoreSum_def or_zero_simp scoreSum_absent)
  finally show ?case .
qed

lemma alist_by_keys:
  "distinct (map fst xs) \<Longrightarrow> (\<And>k. k \<in> fst ` set xs \<Longrightarrow> obj_get xs k = Some (f k)) \<Longrightarrow>
   xs = map (\<lambda>k. (k, f k)) (map fst xs)"
proof (induction xs)
  case Nil
  then show ?case by simp
next
  case (Cons p ps)
  have "obj_get ps k = Some (f k)" if k: "k \<in> fst ` set ps" for k
  proof -
    have "fst p \<notin> fst ` set ps" using Cons.prems(1) by simp
    then have "k \<noteq> fst p" using k by blast
    moreover have "obj_get (p # ps) k = Some (f k)" using Cons.prems(2) [of k] k by simp
    ultimately show ?thesis by simp
  qed
  then have "ps = map (\<lambda>k. (k, f k)) (map fst ps)"
    using Cons.IH Cons.prems(1) by simp
  moreover have "snd p = f (fst p)" using Cons.prems(2) [of "fst p"] by simp
  ultimately show ?case by (metis (no_types, lifting) list.simps(9) prod.collapse)
qed

lemma addScores_empty: "addScores [] t = map (\<lambda>k. (k, scoreSum t k)) (firstSeen (map fst t))"
proof -
  let ?r = "addScores [] t"
  have k: "map fst ?r = firstSeen (map fst t)"
    by (simp add: addScores_def entries_def keys_tally foldl_set_add)
  have g: "obj_get ?r k = Some (scoreSum t k)" if "k \<in> fst ` set ?r" for k
  proof -
    have "k \<in> fst ` set t" using that k by (metis list.set_map set_firstSeen)
    then show ?thesis by (simp add: addScores_def entries_def get_tally or_zero_def)
  qed
  have "distinct (map fst ?r)" unfolding k by simp
  from alist_by_keys [OF this g] show ?thesis unfolding k by simp
qed

lemma addScores_append: "addScores (addScores acc t1) t2 = addScores acc (t1 @ t2)"
  by (simp add: addScores_def entries_def)

lemma addScores_Nil: "addScores acc [] = acc"
  by (simp add: addScores_def entries_def)

lemma sort_insert_sortByScore: "sort_insert sortByScore x ys = insort_key (\<lambda>e. - snd e) x ys"
  by (induction ys) (auto simp: sortByScore_def)

lemma js_sort_sortByScore: "js_sort sortByScore xs = sort_key (\<lambda>e. - snd e) xs"
  by (induction xs) (simp_all add: js_sort_def sort_insert_sortByScore)

lemma fromEntries_gen:
  "distinct (map fst (ob @ es)) \<Longrightarrow> foldl (\<lambda>ob e. obj_set ob (fst e) (snd e)) ob es = ob @ es"
proof (induction es arbitrary: ob)
  case Nil
  then show ?case by simp
next
  case (Cons e es)
  have "fst e \<notin> fst ` set ob" using Cons.prems by auto
  then have "obj_set ob (fst e) (snd e) = ob @ [e]" by (simp add: obj_set_fresh)
  then show ?case using Cons.IH [of "ob @ [e]"] Cons.prems by simp
qed

lemma fromEntries_distinct: "distinct (map fst es) \<Longrightarrow> fromEntries es = es"
  using fromEntries_gen [of "[]" es] by (simp add: fromEntries_def)


lemma step_languages:
  "acc_languages (mergeTechStep acc a) =
     addScores (acc_languages acc) (case opt_languages (techStack a) of None \<Rightarrow> [] | Some t \<Rightarrow> entries t)"
  by (cases "opt_languages (techStack a)") (simp_all add: mergeTechStep_def addScores_Nil entries_def)

lemma step_frameworks:
  "acc_frameworks (mergeTechStep acc a) =
     addScores (acc_frameworks acc) (case opt_frameworks (techStack a) of None \<Rightarrow> [] | Some t \<Rightarrow> entries t)"
  by (cases "opt_frameworks (techStack a)") (simp_all add: mergeTechStep_def addScores_Nil entries_def)

lemma step_tools:
  "acc_tools (mergeTechStep acc a) =
     addScores (acc_tools acc) (case opt_tools (techStack a) of None \<Rightarrow> [] | Some t \<Rightarrow> entries t)"
  by (cases "opt_tools (techStack a)") (simp_all add: mergeTechStep_def addScores_Nil entries_def)

lemma step_topics:
  "acc_topicsSet (mergeTechStep acc a) =
     addTopics (acc_topicsSet acc) (case opt_topics (techStack a) of None \<Rightarrow> [] | Some ts \<Rightarrow> ts)"
  by (cases "opt_topics (techStack a)") (simp_all add: mergeTechStep_def addTopics_def)

lemma fold_languages:
  "acc_languages (foldl mergeTechStep acc as) = addScores (acc_languages acc) (reported opt_languages as)"
proof (induction as arbitrary: acc)
  case Nil
  show ?case by (simp add: reported_def addScores_Nil)
next
  case (Cons a as)
  show ?case by (simp add: Cons.IH step_languages addScores_append reported_def)
qed

lemma fold_frameworks:
  "acc_frameworks (foldl mergeTechStep acc as) = addScores (acc_frameworks acc) (reported opt_frameworks as)"
proof (induction as arbitrary: acc)
  case Nil
  show ?case by (simp add: reported_def addScores_Nil)
next
  case (Cons a as)
  show ?case by (simp add: Cons.IH step_frameworks addScores_append reported_def)
qed

lemma fold_tools:
  "acc_tools (foldl mergeTechStep acc as) = addScores (acc_tools acc) (reported opt_tools as)"
proof (induction as arbitrary: acc)
  case Nil
  show ?case by (simp add: reported_def addScores_Nil)
next
  case (Cons a as)
  show ?case by (simp add: Cons.IH step_tools addScores_append reported_def)
qed

lemma addTopics_append: "addTopics (addTopics s xs) ys = addTopics s (xs @ ys)"
  by (simp add: addTopics_def)

lemma fold_topics:
  "acc_topicsSet (foldl mergeTechStep acc as) = addTopics (acc_topicsSet acc) (reportedTopics as)"
proof (induction as arbitrary: acc)
  case Nil
  show ?case by (simp add: reportedTopics_def addTopics_def)
next
  case (Cons a as)
  show ?case by (simp add: Cons.IH step_topics addTopics_append reportedTopics_def)
qed


lemma distinct_keys_sort_key:
  "distinct (map fst xs) \<Longrightarrow> distinct (map fst (sort_key f xs))"
  by (simp add: distinct_map)

lemma keys_scored: "map fst (map (\<lambda>k. (k, g k)) ks) = ks"
  by (induction ks) simp_all

lemma sortedObj_eq:
  "sortedObj (addScores [] es) = sort_key (\<lambda>e. - snd e) (map (\<lambda>k. (k, scoreSum es k)) (firstSeen (map fst es)))"
proof -
  let ?A = "map (\<lambda>k. (k, scoreSum es k)) (firstSeen (map fst es))"
  have "distinct (map fst ?A)" by (simp only: keys_scored distinct_firstSeen)
  then have d: "distinct (map fst (sort_key (\<lambda>e. - snd e) ?A))"
    by (rule distinct_keys_sort_key)
  have "sortedObj (addScores [] es) = fromEntries (sort_key (\<lambda>e. - snd e) ?A)"
    by (simp only: sortedObj_def js_sort_sortByScore entries_def addScores_empty)
  also have "\<dots> = sort_key (\<lambda>e. - snd e) ?A"
    using d by (rule fromEntries_distinct)
  finally show ?thesis .
qed

lemma sortedObj_distinct: "distinct (map fst (sortedObj (addScores [] es)))"
proof -
  let ?A = "map (\<lambda>k. (k, scoreSum es k)) (firstSeen (map fst es))"
  have "distinct (map fst ?A)" by (simp only: keys_scored distinct_firstSeen)
  then show ?thesis unfolding sortedObj_eq by (rule distinct_keys_sort_key)
qed

lemma obj_get_scored:
  "obj_get (map (\<lambda>k. (k, g k)) ks) k = (if k \<in> set ks then Some (g k) else None)"
  by (induction ks) auto

lemma obj_get_cong_set:
  "distinct (map fst xs) \<Longrightarrow> distinct (map fst ys) \<Longrightarrow> set xs = set ys \<Longrightarrow>
   obj_get xs k = obj_get ys k"
  unfolding obj_get_map_of using map_of_inject_set [of xs ys] by simp

lemma sortedObj_get:
  "obj_get (sortedObj (addScores [] es)) k = (if k \<in> fst ` set es then Some (scoreSum es k) else None)"
proof -
  let ?A = "map (\<lambda>k. (k, scoreSum es k)) (firstSeen (map fst es))"
  have dA: "distinct (map fst ?A)" by (simp only: keys_scored distinct_firstSeen)
  have "set (sortedObj (addScores [] es)) = set ?A" unfolding sortedObj_eq by (rule set_sort)
  with sortedObj_distinct dA have "obj_get (sortedObj (addScores [] es)) k = obj_get ?A k"
    by (rule obj_get_cong_set)
  also have "\<dots> = (if k \<in> fst ` set es then Some (scoreSum es k) else None)"
    by (simp only: obj_get_scored set_firstSeen set_map)
  finally show ?thesis .
qed

lemma sortedObj_sorted: "sorted_wrt (\<lambda>a b. snd b \<le> snd a) (sortedObj (addScores [] es))"
proof -
  have "sorted (map (\<lambda>e. - snd e) (sortedObj (addScores [] es)))"
    unfolding sortedObj_eq by (rule sorted_sort_key)
  then show ?thesis by (simp add: sorted_map)
qed

lemma filter_scored:
  "map fst (filter (\<lambda>e. snd e = s) (map (\<lambda>k. (k, g k)) ks)) = filter (\<lambda>k. g k = s) ks"
  by (induction ks) simp_all

lemma sortedObj_ties:
  "map fst (filter (\<lambda>e. snd e = s) (sortedObj (addScores [] es))) =
     filter (\<lambda>k. scoreSum es k = s) (firstSeen (map fst es))"
proof -
  let ?A = "map (\<lambda>k. (k, scoreSum es k)) (firstSeen (map fst es))"
  have "filter (\<lambda>e. - snd e = - s) (sortedObj (addScores [] es)) = filter (\<lambda>e. - snd e = - s) ?A"
    unfolding sortedObj_eq by (rule sort_key_stable)
  then have "filter (\<lambda>e. snd e = s) (sortedObj (addScores [] es)) = filter (\<lambda>e. snd e = s) ?A"
    by (simp only: neg_equal_iff_equal)
  then show ?thesis by (simp only: filter_scored)
qed


lemma sortedObj_presents: "presents (sortedObj (addScores [] es)) es"
  unfolding presents_def keys_def entries_def
  using sortedObj_distinct [of es] sortedObj_get [of es] sortedObj_sorted [of es]
    sortedObj_ties [of _ es]
  by simp

section \<open>The merge of the personalities\<close>

lemma pstep_frequency:
  "acc_communicationFrequency (mergePersStep acc a) =
     acc_communicationFrequency acc
       + sum_list (filter (\<lambda>f. f \<noteq> 0) (case commFrequency (personality a) of None \<Rightarrow> [] | Some f \<Rightarrow> [f]))"
  by (cases "commFrequency (personality a)") (simp_all add: mergePersStep_def)

lemma pstep_styles:
  "acc_communicationStyles (mergePersStep acc a) =
     pushIfTruthy (acc_communicationStyles acc) (commStyle (personality a))"
  by (simp add: mergePersStep_def)

lemma pstep_workStyles:
  "acc_workStyles (mergePersStep acc a) =
     pushIfTruthy (acc_workStyles acc) (opt_workStyle (personality a))"
  by (simp add: mergePersStep_def)

lemma pushIfTruthy_eq: "pushIfTruthy xs x = xs @ truthyOnes [x]"
  by (simp add: pushIfTruthy_def truthyOnes_def split: option.splits)

lemma truthyOnes_Cons: "truthyOnes (x # xs) = truthyOnes [x] @ truthyOnes xs"
  by (simp add: truthyOnes_def)

lemma pfold_frequency:
  "acc_communicationFrequency (foldl mergePersStep acc as) =
     acc_communicationFrequency acc
       + sum_list (filter (\<lambda>f. f \<noteq> 0) (List.map_filter (\<lambda>a. commFrequency (personality a)) as))"
proof (induction as arbitrary: acc)
  case Nil
  show ?case by (simp add: List.map_filter_simps)
next
  case (Cons a as)
  show ?case
    by (cases "commFrequency (personality a)")
       (simp_all add: Cons.IH pstep_frequency List.map_filter_simps)
qed

lemma pfold_styles:
  "acc_communicationStyles (foldl mergePersStep acc as) =
     acc_communicationStyles acc @ truthyOnes (map (\<lambda>a. commStyle (personality a)) as)"
proof (induction as arbitrary: acc)
  case Nil
  show ?case by (simp add: truthyOnes_def)
next
  case (Cons a as)
  show ?case
    by (simp add: Cons.IH pstep_styles pushIfTruthy_eq truthyOnes_Cons [of _ "map _ as"])
qed

lemma pfold_workStyles:
  "acc_workStyles (foldl mergePersStep acc as) =
     acc_workStyles acc @ truthyOnes (map (\<lambda>a. opt_workStyle (personality a)) as)"
proof (induction as arbitrary: acc)
  case Nil
  show ?case by (simp add: truthyOnes_def)
next
  case (Cons a as)
  show ?case
    by (simp add: Cons.IH pstep_workStyles pushIfTruthy_eq truthyOnes_Cons [of _ "map _ as"])
qed


lemma sorted_tally:
  "js_sort sortByScore (entries (addScores [] es)) =
     sort_key (\<lambda>e. - snd e) (map (\<lambda>k. (k, scoreSum es k)) (firstSeen (map fst es)))"
  by (simp only: js_sort_sortByScore entries_def addScores_empty)

lemma filter_head_takeWhile:
  "filter P xs = y # ys \<Longrightarrow> x \<in> set (takeWhile (\<lambda>z. z \<noteq> y) xs) \<Longrightarrow> \<not> P x"
proof (induction xs)
  case Nil
  then show ?case by simp
next
  case (Cons a xs)
  show ?case
  proof (cases "a = y")
    case True
    then show ?thesis using Cons.prems(2) by simp
  next
    case False
    show ?thesis
    proof (cases "P a")
      case True
      then show ?thesis using Cons.prems(1) False by simp
    next
      case notP: False
      then have "filter P xs = y # ys" using Cons.prems(1) by simp
      moreover have "x = a \<or> x \<in> set (takeWhile (\<lambda>z. z \<noteq> y) xs)"
        using Cons.prems(2) False by simp
      ultimately show ?thesis using Cons.IH notP by blast
    qed
  qed
qed

lemma sort_key_head:
  assumes "sort_key f xs = y # ys"
  shows "y \<in> set xs" and "\<And>x. x \<in> set xs \<Longrightarrow> f y \<le> f x"
    and "\<And>x. x \<in> set (takeWhile (\<lambda>z. z \<noteq> y) xs) \<Longrightarrow> f y < f x"
proof -
  have s: "set (sort_key f xs) = set xs" by simp
  show y: "y \<in> set xs" using s assms by (metis list.set_intros(1))
  have "sorted (map f (sort_key f xs))" by (rule sorted_sort_key)
  then have "\<forall>x \<in> set ys. f y \<le> f x" using assms by simp
  then show le: "f y \<le> f x" if "x \<in> set xs" for x
    using that s assms by (metis order_refl set_ConsD)
  show "f y < f x" if x: "x \<in> set (takeWhile (\<lambda>z. z \<noteq> y) xs)" for x
  proof -
    have "filter (\<lambda>z. f z = f y) (sort_key f xs) = filter (\<lambda>z. f z = f y) xs"
      by (rule sort_key_stable)
    then have "filter (\<lambda>z. f z = f y) xs = y # filter (\<lambda>z. f z = f y) ys"
      using assms by simp
    from filter_head_takeWhile [of "\<lambda>z. f z = f y" xs y _ x, OF this x]
    have "f x \<noteq> f y" .
    moreover have "f y \<le> f x" using le x by (meson set_takeWhileD)
    ultimately show ?thesis by simp
  qed
qed

lemma takeWhile_filter_set:
  assumes "x \<noteq> w"
  shows "insert x (set (takeWhile (\<lambda>z. z \<noteq> w) (filter (\<lambda>y. y \<noteq> x) xs))) =
         insert x (set (takeWhile (\<lambda>z. z \<noteq> w) xs))"
proof (induction xs)
  case Nil
  show ?case by simp
next
  case (Cons a xs)
  show ?case
  proof (cases "a = x")
    case True
    then show ?thesis using Cons.IH assms by simp
  next
    case False
    then show ?thesis using Cons.IH by (cases "a = w") auto
  qed
qed

lemma firstSeen_takeWhile:
  "set (takeWhile (\<lambda>z. z \<noteq> w) (firstSeen xs)) = set (takeWhile (\<lambda>z. z \<noteq> w) xs)"
proof (induction "length xs" arbitrary: xs rule: less_induct)
  case less
  show ?case
  proof (cases xs)
    case Nil
    then show ?thesis by simp
  next
    case (Cons x xs')
    show ?thesis
    proof (cases "x = w")
      case True
      then show ?thesis using Cons by (simp add: firstSeen_Cons)
    next
      case False
      have "length (filter (\<lambda>y. y \<noteq> x) xs') < length xs"
        using Cons by (simp add: le_imp_less_Suc)
      then have "set (takeWhile (\<lambda>z. z \<noteq> w) (firstSeen (filter (\<lambda>y. y \<noteq> x) xs'))) =
                 set (takeWhile (\<lambda>z. z \<noteq> w) (filter (\<lambda>y. y \<noteq> x) xs'))"
        by (rule less)
      then show ?thesis
        using False Cons takeWhile_filter_set [OF False, of xs']
        by (simp add: firstSeen_Cons)
    qed
  qed
qed

lemma scoreSum_ones: "scoreSum (map (\<lambda>s. (s, 1)) ws) k = int (count_list ws k)"
  by (induction ws) (simp_all add: scoreSum_def)

lemma workStyleCounts_eq:
  "foldl (\<lambda>ob s. bump ob s 1) [] ws = addScores [] (map (\<lambda>s. (s, 1)) ws)"
  by (simp add: addScores_def entries_def foldl_map)

lemma takeWhile_scored:
  "map fst (takeWhile (\<lambda>z. z \<noteq> (w, g w)) (map (\<lambda>k. (k, g k)) ks)) = takeWhile (\<lambda>z. z \<noteq> w) ks"
  by (induction ks) auto

lemma dominantWorkStyle_None: "dominantWorkStyle [] = None"
  by (simp add: dominantWorkStyle_def js_sort_def entries_def)

lemma dominantWorkStyle_plurality:
  assumes ne: "ws \<noteq> []" and nonempty: "[] \<notin> set ws"
  shows "\<exists>w. dominantWorkStyle ws = Some w \<and> w \<in> set ws
           \<and> (\<forall>v \<in> set ws. count_list ws v \<le> count_list ws w)
           \<and> (\<forall>v \<in> set (takeWhile (\<lambda>z. z \<noteq> w) ws). count_list ws v < count_list ws w)"
proof -
  let ?g = "\<lambda>k. int (count_list ws k)"
  let ?A = "map (\<lambda>k. (k, ?g k)) (firstSeen ws)"
  let ?S = "sort_key (\<lambda>e. - snd e) ?A"
  have S: "js_sort sortByScore (entries (foldl (\<lambda>ob s. bump ob s 1) [] ws)) = ?S"
    by (simp add: workStyleCounts_eq sorted_tally scoreSum_ones comp_def)
  have "?A \<noteq> []" using ne by (metis list.map_disc_iff set_empty set_firstSeen)
  then have "?S \<noteq> []" by (metis length_0_conv length_sort)
  then obtain y ys where ys: "?S = y # ys" by (cases ?S) auto
  have yA: "y \<in> set ?A" using sort_key_head(1) [OF ys] .
  then obtain w where w: "w \<in> set ws" "y = (w, ?g w)" by auto
  have max: "?g v \<le> ?g w" if "v \<in> set ws" for v
  proof -
    have "(v, ?g v) \<in> set ?A" using that by simp
    from sort_key_head(2) [OF ys this] show ?thesis using w by simp
  qed
  have tie: "?g v < ?g w" if v: "v \<in> set (takeWhile (\<lambda>z. z \<noteq> w) ws)" for v
  proof -
    have "v \<in> set (takeWhile (\<lambda>z. z \<noteq> w) (firstSeen ws))" using v by (simp add: firstSeen_takeWhile)
    then have "v \<in> set (map fst (takeWhile (\<lambda>z. z \<noteq> (w, ?g w)) ?A))"
      using takeWhile_scored [of w ?g "firstSeen ws"] by simp
    then obtain e where e: "e \<in> set (takeWhile (\<lambda>z. z \<noteq> y) ?A)" "fst e = v"
      using w by auto
    then have "e \<in> set ?A" by (meson set_takeWhileD)
    then have "e = (v, ?g v)" using e(2) by auto
    with sort_key_head(3) [OF ys e(1)] show ?thesis using w by simp
  qed
  have "w \<noteq> []" using w(1) nonempty by auto
  then have "dominantWorkStyle ws = Some w"
    using ys w by (simp add: dominantWorkStyle_def Let_def S)
  then show ?thesis using w max tie by auto
qed

lemma truthyOnes_nonempty: "[] \<notin> set (truthyOnes xs)"
  by (induction xs) (auto simp: truthyOnes_def split: option.splits)

lemma truthyOnes_Nil_iff: "truthyOnes xs = [] \<longleftrightarrow> \<not> list_ex truthy xs"
  by (induction xs) (auto simp: truthyOnes_def truthy_def split: option.splits)

lemma merged_workStyle:
  "workStyle (mergePersonalities analyses) = dominantWorkStyle (workStyleLabels analyses)"
  by (simp add: mergePersonalities_def Let_def pfold_workStyles workStyleLabels_def)

lemma merged_style:
  "style (communication (mergePersonalities analyses)) =
     Some (summarizeCommunicationStyle (styleStrings analyses))"
  by (simp add: mergePersonalities_def Let_def pfold_styles styleStrings_def)

lemma summarize_nonempty:
  "[] \<notin> set styles \<Longrightarrow> summarizeCommunicationStyle styles \<noteq> []"
  by (auto simp: summarizeCommunicationStyle_def Let_def label_insufficient_def
      txt_na_comm_style_def split: list.splits)

lemma dominantWorkStyle_None_iff:
  "[] \<notin> set ws \<Longrightarrow> dominantWorkStyle ws = None \<longleftrightarrow> ws = []"
  using dominantWorkStyle_plurality [of ws] dominantWorkStyle_None by fastforce


section \<open>The keyword tally of the communication styles\<close>

lemma foldl_cond:
  "foldl (\<lambda>ob p. if Q p then F ob p else ob) ob ps = foldl F ob (filter Q ps)"
  by (induction ps arbitrary: ob) simp_all

lemma countKeywords_eq: "countKeywords kws s = addScores kws (hitsOf s)"
  by (simp add: countKeywords_def addScores_def entries_def hitsOf_def foldl_cond foldl_map)

lemma fold_countKeywords:
  "foldl countKeywords kws styles = addScores kws (concat (map hitsOf styles))"
proof (induction styles arbitrary: kws)
  case Nil
  show ?case by (simp add: addScores_Nil)
next
  case (Cons s styles)
  have "foldl countKeywords kws (s # styles) = foldl countKeywords (countKeywords kws s) styles"
    by simp
  also have "\<dots> = addScores (countKeywords kws s) (concat (map hitsOf styles))"
    by (rule Cons.IH)
  also have "\<dots> = addScores kws (concat (map hitsOf (s # styles)))"
    by (simp add: countKeywords_eq addScores_append)
  finally show ?case .
qed

lemma scoreSum_append: "scoreSum (xs @ ys) k = scoreSum xs k + scoreSum ys k"
  by (simp add: scoreSum_def)

lemma scoreSum_Nil: "scoreSum [] k = 0"
  by (simp add: scoreSum_def)

lemma distinct_keywords: "distinct (map snd keywordPatterns)"
  by (simp add: keywordPatterns_def kw_technical_def kw_educational_def kw_leadership_def
      kw_cooperative_def kw_individual_def kw_concise_def kw_detailed_def kw_balance_def
      kw_influence_def)

lemma scoreSum_hits_gen:
  "distinct (map snd ps) \<Longrightarrow>
   scoreSum (map (\<lambda>p. (snd p, 1)) (filter Q ps)) k =
     (if list_ex (\<lambda>p. snd p = k \<and> Q p) ps then 1 else 0)"
proof (induction ps)
  case Nil
  show ?case by (simp add: scoreSum_def)
next
  case (Cons p ps)
  have IH: "scoreSum (map (\<lambda>p. (snd p, 1)) (filter Q ps)) k =
     (if list_ex (\<lambda>p. snd p = k \<and> Q p) ps then 1 else 0)"
    using Cons by simp
  show ?case
  proof (cases "snd p = k \<and> Q p")
    case True
    have "\<not> list_ex (\<lambda>q. snd q = k \<and> Q q) ps"
    proof
      assume "list_ex (\<lambda>q. snd q = k \<and> Q q) ps"
      then obtain q where "q \<in> set ps" "snd q = k" by (auto simp: list_ex_iff)
      then have "snd p \<in> snd ` set ps" using True by (metis imageI)
      then show False using Cons.prems by simp
    qed
    then show ?thesis using True IH by (simp add: scoreSum_def)
  next
    case False
    then show ?thesis using IH by (auto simp: scoreSum_def)
  qed
qed

lemma scoreSum_hitsOf:
  "scoreSum (hitsOf s) k =
     (if list_ex (\<lambda>p. snd p = k \<and> pattern_test (fst p) s) keywordPatterns then 1 else 0)"
  unfolding hitsOf_def using distinct_keywords by (rule scoreSum_hits_gen)

lemma scoreSum_hits: "scoreSum (concat (map hitsOf styles)) k = int (matchCount styles k)"
proof (induction styles)
  case Nil
  show ?case by (simp add: scoreSum_def matchCount_def)
next
  case (Cons s styles)
  have "matchCount (s # styles) k =
      (if list_ex (\<lambda>p. snd p = k \<and> pattern_test (fst p) s) keywordPatterns then 1 else 0)
      + matchCount styles k"
    by (simp add: matchCount_def)
  then show ?case using Cons by (simp add: scoreSum_append scoreSum_hitsOf)
qed

lemma keys_hits: "k \<in> fst ` set (concat (map hitsOf styles)) \<longleftrightarrow> 0 < matchCount styles k"
proof -
  have "k \<in> fst ` set (hitsOf s) \<longleftrightarrow>
        list_ex (\<lambda>p. snd p = k \<and> pattern_test (fst p) s) keywordPatterns" for s
    by (force simp: hitsOf_def list_ex_iff image_iff)
  then have "k \<in> fst ` set (concat (map hitsOf styles)) \<longleftrightarrow>
      (\<exists>s \<in> set styles. list_ex (\<lambda>p. snd p = k \<and> pattern_test (fst p) s) keywordPatterns)"
    by (simp add: image_UN)
  also have "\<dots> \<longleftrightarrow> 0 < matchCount styles k"
    by (simp add: matchCount_def length_greater_0_conv filter_empty_conv)
  finally show ?thesis .
qed


lemma sortedKeywords_set: "set (sortedKeywordsOf styles) = {k. 0 < matchCount styles k}"
proof -
  have "set (sortedKeywordsOf styles) = fst ` set (concat (map hitsOf styles))"
    unfolding sortedKeywordsOf_def fold_countKeywords sorted_tally
    by (simp add: image_image del: set_concat)
  then show ?thesis using keys_hits by blast
qed

lemma sortedKeywords_distinct: "distinct (sortedKeywordsOf styles)"
proof -
  let ?es = "concat (map hitsOf styles)"
  have "distinct (map fst (map (\<lambda>k. (k, scoreSum ?es k)) (firstSeen (map fst ?es))))"
    by (simp only: keys_scored distinct_firstSeen)
  then show ?thesis
    unfolding sortedKeywordsOf_def fold_countKeywords sorted_tally
    by (rule distinct_keys_sort_key)
qed

lemma sortedKeywords_sorted:
  "sorted_wrt (\<lambda>a b. matchCount styles b \<le> matchCount styles a) (sortedKeywordsOf styles)"
proof -
  let ?es = "concat (map hitsOf styles)"
  let ?A = "map (\<lambda>k. (k, scoreSum ?es k)) (firstSeen (map fst ?es))"
  let ?S = "sort_key (\<lambda>e. - snd e) ?A"
  have "sorted (map (\<lambda>e. - snd e) ?S)" by (rule sorted_sort_key)
  then have 1: "sorted_wrt (\<lambda>a b. snd b \<le> snd a) ?S" by (simp add: sorted_map)
  have 2: "snd e = int (matchCount styles (fst e))" if "e \<in> set ?S" for e
    using that by (auto simp: scoreSum_hits)
  have "sorted_wrt (\<lambda>a b. matchCount styles (fst b) \<le> matchCount styles (fst a)) ?S"
    by (rule sorted_wrt_mono_rel [OF _ 1]) (simp add: 2)
  then show ?thesis
    unfolding sortedKeywordsOf_def fold_countKeywords sorted_tally
    by (simp add: sorted_wrt_map)
qed

lemma summarize_many:
  "2 \<le> length styles \<Longrightarrow>
   summarizeCommunicationStyle styles =
     (case sortedKeywordsOf styles of
        [] \<Rightarrow> hd styles
      | [k0] \<Rightarrow> k0 @ txt_na_comm_style
      | k0 # k1 # _ \<Rightarrow> k0 @ txt_katsu @ k1 @ txt_na_comm_style)"
proof -
  assume "2 \<le> length styles"
  then obtain a b rest where styles: "styles = a # b # rest"
    by (cases styles; cases "tl styles") auto
  show ?thesis
    unfolding styles
    by (simp add: summarizeCommunicationStyle_def Let_def sortedKeywordsOf_def
        split: list.splits)
qed

lemma summarize_none:
  assumes "2 \<le> length styles" and "\<forall>k. matchCount styles k = 0"
  shows "summarizeCommunicationStyle styles = hd styles"
proof -
  have "set (sortedKeywordsOf styles) = {}" using assms(2) by (simp add: sortedKeywords_set)
  then show ?thesis using assms(1) by (simp add: summarize_many)
qed

lemma summarize_one:
  assumes "2 \<le> length styles" and "0 < matchCount styles k0"
    and "\<forall>k. 0 < matchCount styles k \<longrightarrow> k = k0"
  shows "summarizeCommunicationStyle styles = k0 @ txt_na_comm_style"
proof -
  have s: "set (sortedKeywordsOf styles) = {k0}"
    unfolding sortedKeywords_set using assms(2,3) by blast
  have "sortedKeywordsOf styles = [k0]"
  proof (cases "sortedKeywordsOf styles")
    case Nil
    then show ?thesis using s by simp
  next
    case (Cons a as)
    then have "a = k0" using s by auto
    moreover have "as = []"
    proof (cases as)
      case Nil
      then show ?thesis .
    next
      case (Cons b bs)
      then have "b = k0" using s \<open>sortedKeywordsOf styles = a # as\<close> by auto
      then show ?thesis
        using sortedKeywords_distinct [of styles] \<open>a = k0\<close> Cons
          \<open>sortedKeywordsOf styles = a # as\<close> by simp
    qed
    ultimately show ?thesis using Cons by simp
  qed
  then show ?thesis using assms(1) by (simp add: summarize_many)
qed

lemma summarize_two:
  assumes "2 \<le> length styles" and "k \<noteq> k'" and "0 < matchCount styles k"
    and "0 < matchCount styles k'"
  shows "\<exists>k0 k1. summarizeCommunicationStyle styles = k0 @ txt_katsu @ k1 @ txt_na_comm_style
           \<and> k0 \<noteq> k1 \<and> 0 < matchCount styles k0 \<and> 0 < matchCount styles k1
           \<and> matchCount styles k1 \<le> matchCount styles k0
           \<and> (\<forall>j. j \<noteq> k0 \<longrightarrow> matchCount styles j \<le> matchCount styles k1)"
proof -
  let ?ks = "sortedKeywordsOf styles"
  have mem: "k \<in> set ?ks" "k' \<in> set ?ks" using assms(3,4) by (simp_all add: sortedKeywords_set)
  obtain k0 k1 rest where ks: "?ks = k0 # k1 # rest"
  proof (cases ?ks)
    case Nil
    then show ?thesis using mem by simp
  next
    case (Cons a as)
    show ?thesis
    proof (cases as)
      case Nil
      then show ?thesis using mem Cons assms(2) by simp
    next
      case (Cons b bs)
      then show ?thesis using that \<open>?ks = a # as\<close> by simp
    qed
  qed
  have d: "k0 \<noteq> k1" "k0 \<notin> set rest"
    using sortedKeywords_distinct [of styles] ks by simp_all
  have srt: "matchCount styles k1 \<le> matchCount styles k0"
    "\<forall>j \<in> set rest. matchCount styles j \<le> matchCount styles k1"
    using sortedKeywords_sorted [of styles] ks by simp_all
  have pos: "0 < matchCount styles k0" "0 < matchCount styles k1"
    using sortedKeywords_set [of styles] ks by auto
  have others: "matchCount styles j \<le> matchCount styles k1" if "j \<noteq> k0" for j
  proof (cases "0 < matchCount styles j")
    case True
    then have "j \<in> set ?ks" by (simp add: sortedKeywords_set)
    then have "j = k1 \<or> j \<in> set rest" using that ks by simp
    then show ?thesis using srt(2) by auto
  next
    case False
    then show ?thesis by simp
  qed
  have "summarizeCommunicationStyle styles = k0 @ txt_katsu @ k1 @ txt_na_comm_style"
    using assms(1) ks by (simp add: summarize_many)
  then show ?thesis using d(1) pos srt(1) others by blast
qed


lemmas kw_defs = kw_technical_def kw_educational_def kw_leadership_def
      kw_cooperative_def kw_individual_def kw_concise_def kw_detailed_def kw_balance_def
      kw_influence_def

lemma mc_none: "matchCount [ascii ''a'', ascii ''b''] k = 0"
  by (simp add: matchCount_def keywordPatterns_def pattern_test_def ascii_def)

lemma mc_one: "matchCount [[0x30D0, 0x30E9, 0x30F3, 0x30B9], ascii ''b''] k = (if k = kw_balance then 1 else 0)"
  by (simp add: matchCount_def keywordPatterns_def pattern_test_def ascii_def kw_defs) 

lemma mc_two: "matchCount [[0x6280, 0x8853], [0x6280, 0x8853, 0x4E01, 0x5BE7]] k =
   (if k = kw_technical then 2 else if k = kw_detailed then 1 else 0)"
  by (simp add: matchCount_def keywordPatterns_def pattern_test_def ascii_def kw_defs) 


section \<open>The analyzer, the handler and the extractors\<close>

lemma runExtractor_snd: "snd (runExtractor p service u st) = snd st @ succeeded service u"
  by (simp add: runExtractor_def succeeded_def split: option.splits sum.splits)

lemma runExtractors_snd:
  "snd (runExtractors svc request) =
     succeeded (githubService svc) (github request)
     @ succeeded (twitterService svc) (twitter request)
     @ succeeded (speakerDeckService svc) (speakerdeck request)
     @ succeeded (blogService svc) (blog request)"
  by (simp add: runExtractors_def runExtractor_snd)

lemma mergeTechStacks_Nil:
  "mergeTechStacks [] = \<lparr> languages = [], frameworks = [], tools = [], topics = [] \<rparr>"
  by (simp add: mergeTechStacks_def sortedObj_def fromEntries_def js_sort_def entries_def)

lemma mergePersonalities_Nil:
  "mergePersonalities [] =
     \<lparr> interests = [], activities = [],
       communication = \<lparr> style = Some label_insufficient, frequency = Some 0,
                         comm_topics = Some [] \<rparr>,
       workStyle = None \<rparr>"
  by (simp add: mergePersonalities_def summarizeCommunicationStyle_def dominantWorkStyle_def
      js_sort_def entries_def)

lemma label_insufficient_nonempty: "label_insufficient \<noteq> []"
  by (simp add: label_insufficient_def)

lemma generateSummary_Nil:
  "generateSummary [] (mergeTechStacks []) (mergePersonalities []) = noDataSummary"
  by (simp add: mergeTechStacks_Nil mergePersonalities_Nil generateSummary_def listLine_def
      optLine_def keys_def noDataSummary_def label_insufficient_nonempty)


lemma extractTopics_Nil: "extractTopicsFromTweets [] = []"
  by (simp add: extractTopicsFromTweets_def)

lemma extractHashtags_Nil: "extractHashtags [] = []"
  by (simp add: extractHashtags_def)


lemma username_alice:
  "TwitterService_extractUsername (ascii ''https://twitter.com/alice'') = Inr (ascii ''alice'')"
  by (simp add: TwitterService_extractUsername_def twitter_username_re_def re_group_plus_def
      re_seq_def re_alt_def re_lit_def notSlashQuery_def ascii_def)


lemma trySelectors_find:
  "trySelectors resolve doc baseUrl sels [] =
     (case find (\<lambda>sel. yields resolve doc baseUrl sel \<noteq> []) sels of
        Some sel \<Rightarrow> yields resolve doc baseUrl sel
      | None \<Rightarrow> [])"
  by (induction sels) (simp_all add: yields_def Let_def)

lemma map_filter_Nil_iff: "List.map_filter f xs = [] \<longleftrightarrow> (\<forall>x \<in> set xs. f x = None)"
  by (induction xs) (auto simp: List.map_filter_simps split: option.splits)

lemma map_filter_nonempty: "x \<in> set xs \<Longrightarrow> f x = Some y \<Longrightarrow> List.map_filter f xs \<noteq> []"
  by (induction xs) (auto simp: List.map_filter_simps split: option.splits)

lemma find_yields_Some:
  "find P xs = Some x \<Longrightarrow> P x"
  by (induction xs) (auto split: if_splits)

lemma discoverArticles_eq:
  "discoverArticles resolve doc baseUrl =
    (case find (\<lambda>sel. yields resolve doc baseUrl sel \<noteq> []) articleSelectors of
       Some sel \<Rightarrow> yields resolve doc baseUrl sel
     | None \<Rightarrow> List.map_filter (stubOf resolve baseUrl) (anchors doc))"
proof (cases "find (\<lambda>sel. yields resolve doc baseUrl sel \<noteq> []) articleSelectors")
  case None
  then show ?thesis by (simp add: discoverArticles_def trySelectors_find)
next
  case (Some sel)
  then have "yields resolve doc baseUrl sel \<noteq> []" by (rule find_yields_Some)
  then show ?thesis using Some by (simp add: discoverArticles_def trySelectors_find)
qed

lemma articleOf_kept:
  "articleOf resolve baseUrl el \<noteq> None \<longleftrightarrow> trim (el_heading el) \<noteq> [] \<and> trim (el_text el) \<noteq> []"
  by (simp add: articleOf_def Let_def)

lemma stubOf_iff: "stubOf resolve baseUrl a \<noteq> None \<longleftrightarrow> stubLink a"
  by (auto simp: stubOf_def stubLink_def Let_def split: option.splits)

lemma stubOf_value:
  "a_href a = Some href \<Longrightarrow> stubLink a \<Longrightarrow>
   stubOf resolve baseUrl a =
     Some \<lparr> title = trim (a_text a), article_url = normalizeUrl resolve href baseUrl,
            content = trim (a_text a), date = None \<rparr>"
  by (auto simp: stubOf_def stubLink_def Let_def)


lemma callTool_rejects:
  assumes "malformed github_url_re (github args) \<or> malformed twitter_url_re (twitter args)
           \<or> malformed speakerdeck_url_re (speakerdeck args)"
  shows "\<exists>msg. callTool svc analysisCache (ascii ''how-person'') args =
           (analysisCache, [], Inl (McpError InvalidParams msg))"
  using assms by (auto simp: callTool_def)

lemma runExtractor_fst:
  "fst (runExtractor p service u st) =
     fst st @ (case u of None \<Rightarrow> [] | Some s \<Rightarrow> if s = [] then [] else [(p, s)])"
  by (simp add: runExtractor_def split: option.splits sum.splits)

lemma blog_rejects_unparsable:
  "URL_hostname rest b = None \<Longrightarrow>
   BlogService_analyze rest body b = Inl (JsError (ascii ''Error'') (ascii ''Invalid Blog URL''))"
  by (simp add: BlogService_analyze_def BlogService_extractDomain_def)

lemma runExtractors_fst: "fst (runExtractors svc args) = requestedCalls args"
  by (simp add: runExtractors_def runExtractor_fst requestedCalls_def requested_def)

lemma analyze_eq:
  "analyze svc args =
     (requestedCalls args,
      Inr \<lparr> platforms = snd (runExtractors svc args),
            res_techStack = mergeTechStacks (snd (runExtractors svc args)),
            res_personality = mergePersonalities (snd (runExtractors svc args)),
            summary = generateSummary (snd (runExtractors svc args))
                        (mergeTechStacks (snd (runExtractors svc args)))
                        (mergePersonalities (snd (runExtractors svc args))) \<rparr>)"
  by (simp add: analyze_def Let_def runExtractors_fst)

lemma callTool_answers:
  assumes "\<not> malformed github_url_re (github args)" "\<not> malformed twitter_url_re (twitter args)"
    "\<not> malformed speakerdeck_url_re (speakerdeck args)"
    "truthy (github args) \<or> truthy (twitter args) \<or> truthy (speakerdeck args) \<or> truthy (blog args)"
    "analysisCache args = None"
  shows "\<exists>r :: AnalysisResult. callTool svc analysisCache (ascii ''how-person'') args =
             (analysisCache(args \<mapsto> summary r), requestedCalls args, Inr (summary r))
           \<and> platforms r =
               succeeded (githubService svc) (github args)
               @ succeeded (twitterService svc) (twitter args)
               @ succeeded (speakerDeckService svc) (speakerdeck args)
               @ succeeded (blogService svc) (blog args)
           \<and> summary r = generateSummary (platforms r) (mergeTechStacks (platforms r))
                            (mergePersonalities (platforms r))"
proof -
  define ps where "ps = snd (runExtractors svc args)"
  define r where "r = \<lparr> platforms = ps, res_techStack = mergeTechStacks ps,
             res_personality = mergePersonalities ps,
             summary = generateSummary ps (mergeTechStacks ps) (mergePersonalities ps) \<rparr>"
  have a: "analyze svc args = (requestedCalls args, Inr r)"
    unfolding r_def ps_def by (rule analyze_eq)
  have c: "callTool svc analysisCache (ascii ''how-person'') args =
             (analysisCache(args \<mapsto> summary r), requestedCalls args, Inr (summary r))"
    using assms by (simp add: callTool_def a)
  have p: "platforms r = succeeded (githubService svc) (github args)
               @ succeeded (twitterService svc) (twitter args)
               @ succeeded (speakerDeckService svc) (speakerdeck args)
               @ succeeded (blogService svc) (blog args)"
    by (simp add: r_def ps_def runExtractors_snd)
  have s: "summary r = generateSummary (platforms r) (mergeTechStacks (platforms r))
                            (mergePersonalities (platforms r))"
    by (simp add: r_def)
  from c p s show ?thesis by blast
qed

lemma requested_blog:
  "blog args = Some b \<Longrightarrow> b \<noteq> [] \<Longrightarrow> (BLOG, b) \<in> set (requestedCalls args)"
  by (simp add: requestedCalls_def requested_def)

lemma blog_left_out:
  assumes "blog args = Some b" "blogService svc = BlogService_analyze rest body"
    "URL_hostname rest b = None"
  shows "blogService svc b = Inl (JsError (ascii ''Error'') (ascii ''Invalid Blog URL''))"
    and "succeeded (blogService svc) (blog args) = []"
proof -
  show 1: "blogService svc b = Inl (JsError (ascii ''Error'') (ascii ''Invalid Blog URL''))"
    unfolding assms(2) using assms(3) by (rule blog_rejects_unparsable)
  show "succeeded (blogService svc) (blog args) = []"
    by (simp add: succeeded_def assms(1) 1)
qed

lemmas re_defs = re_test_def re_seqs_def re_seq_def re_opt_def re_alt_def re_lit_def
  re_end_def notSlash_def

lemma no_username_malformed:
  "malformed github_url_re (Some (ascii ''https://github.com/''))"
  by (simp add: malformed_def github_url_re_def re_defs ascii_def)

lemma not_a_url_unparsable: "URL_hostname rest (ascii ''not a url'') = None"
  by (simp add: URL_hostname_def hasScheme_def isC0OrSpace_def isTabOrNewline_def
      isAsciiAlpha_def isSchemeChar_def ascii_def)


section \<open>Claims\<close>

text \<open>
  C1. For every list of platform analyses, each of the fields \<open>languages\<close>,
  \<open>frameworks\<close> and \<open>tools\<close> of the merged tech stack, when the keys reported in that
  field are plain property names, maps exactly the keys that some platform reports in
  that field, each to the sum of the scores reported for it; its entries are in
  descending order of merged score, and keys of equal score keep the order in which they
  were first met. The merged \<open>topics\<close> are the topics of the platforms without
  duplicates, in the order of their first occurrence.
\<close>

theorem mergeTechStacks_sums_sorted:
  "((\<forall>k \<in> fst ` set (reported opt_languages analyses). plainKey k) \<longrightarrow>
      presents (languages (mergeTechStacks analyses)) (reported opt_languages analyses))
   \<and> ((\<forall>k \<in> fst ` set (reported opt_frameworks analyses). plainKey k) \<longrightarrow>
      presents (frameworks (mergeTechStacks analyses)) (reported opt_frameworks analyses))
   \<and> ((\<forall>k \<in> fst ` set (reported opt_tools analyses). plainKey k) \<longrightarrow>
      presents (tools (mergeTechStacks analyses)) (reported opt_tools analyses))
   \<and> topics (mergeTechStacks analyses) = firstSeen (reportedTopics analyses)
   \<and> distinct (topics (mergeTechStacks analyses))
   \<and> set (topics (mergeTechStacks analyses)) = set (reportedTopics analyses)"
proof -
  have l: "languages (mergeTechStacks analyses) = sortedObj (addScores [] (reported opt_languages analyses))"
    by (simp add: mergeTechStacks_def Let_def fold_languages)
  have f: "frameworks (mergeTechStacks analyses) = sortedObj (addScores [] (reported opt_frameworks analyses))"
    by (simp add: mergeTechStacks_def Let_def fold_frameworks)
  have t: "tools (mergeTechStacks analyses) = sortedObj (addScores [] (reported opt_tools analyses))"
    by (simp add: mergeTechStacks_def Let_def fold_tools)
  have tp: "topics (mergeTechStacks analyses) = firstSeen (reportedTopics analyses)"
    by (simp add: mergeTechStacks_def Let_def fold_topics addTopics_def foldl_set_add)
  show ?thesis
    unfolding l f t tp by (simp add: sortedObj_presents)
qed

text \<open>
  The example of the specification, with a framework and a tool beside it: one platform
  reports \<open>{python: 3}\<close>, another \<open>{python: 2}\<close>; the merge has \<open>python: 5\<close>.
\<close>

theorem mergeTechStacks_sums_sorted_witness:
  "plainKey (ascii ''python'') \<and> plainKey (ascii ''react'') \<and> plainKey (ascii ''docker'')
   \<and> obj_get (languages (mergeTechStacks
         [exampleStack GITHUB [(ascii ''python'', 3)] [(ascii ''react'', 1)] [],
          exampleStack BLOG [(ascii ''python'', 2)] [] [(ascii ''docker'', 2)]]))
       (ascii ''python'') = Some 5
   \<and> obj_get (frameworks (mergeTechStacks
         [exampleStack GITHUB [(ascii ''python'', 3)] [(ascii ''react'', 1)] [],
          exampleStack BLOG [(ascii ''python'', 2)] [] [(ascii ''docker'', 2)]]))
       (ascii ''react'') = Some 1
   \<and> obj_get (tools (mergeTechStacks
         [exampleStack GITHUB [(ascii ''python'', 3)] [(ascii ''react'', 1)] [],
          exampleStack BLOG [(ascii ''python'', 2)] [] [(ascii ''docker'', 2)]]))
       (ascii ''docker'') = Some 2"
proof -
  let ?ex = "[exampleStack GITHUB [(ascii ''python'', 3)] [(ascii ''react'', 1)] [],
              exampleStack BLOG [(ascii ''python'', 2)] [] [(ascii ''docker'', 2)]]"
  have p: "plainKey (ascii ''python'')" "plainKey (ascii ''react'')" "plainKey (ascii ''docker'')"
    by (simp_all add: plainKey_def isArrayIndex_def isDigit_def objectPrototypeNames_def ascii_def)
  have rl: "reported opt_languages ?ex = [(ascii ''python'', 3), (ascii ''python'', 2)]"
    and rf: "reported opt_frameworks ?ex = [(ascii ''react'', 1)]"
    and rt: "reported opt_tools ?ex = [(ascii ''docker'', 2)]"
    by (simp_all add: reported_def exampleStack_def entries_def)
  have hl: "\<forall>k \<in> fst ` set (reported opt_languages ?ex). plainKey k"
    and hf: "\<forall>k \<in> fst ` set (reported opt_frameworks ?ex). plainKey k"
    and ht: "\<forall>k \<in> fst ` set (reported opt_tools ?ex). plainKey k"
    unfolding rl rf rt using p by simp_all
  from mergeTechStacks_sums_sorted [of ?ex] hl hf ht
  have "presents (languages (mergeTechStacks ?ex)) (reported opt_languages ?ex)"
    and "presents (frameworks (mergeTechStacks ?ex)) (reported opt_frameworks ?ex)"
    and "presents (tools (mergeTechStacks ?ex)) (reported opt_tools ?ex)"
    by blast+
  then have g: "obj_get (languages (mergeTechStacks ?ex)) k =
      (if k \<in> fst ` set (reported opt_languages ?ex)
       then Some (scoreSum (reported opt_languages ?ex) k) else None)"
    "obj_get (frameworks (mergeTechStacks ?ex)) k =
      (if k \<in> fst ` set (reported opt_frameworks ?ex)
       then Some (scoreSum (reported opt_frameworks ?ex) k) else None)"
    "obj_get (tools (mergeTechStacks ?ex)) k =
      (if k \<in> fst ` set (reported opt_tools ?ex)
       then Some (scoreSum (reported opt_tools ?ex) k) else None)" for k
    unfolding presents_def by blast+
  have "obj_get (languages (mergeTechStacks ?ex)) (ascii ''python'') = Some 5"
    using g(1) [of "ascii ''python''"] unfolding rl by (simp add: scoreSum_def)
  moreover have "obj_get (frameworks (mergeTechStacks ?ex)) (ascii ''react'') = Some 1"
    using g(2) [of "ascii ''react''"] unfolding rf by (simp add: scoreSum_def)
  moreover have "obj_get (tools (mergeTechStacks ?ex)) (ascii ''docker'') = Some 2"
    using g(3) [of "ascii ''docker''"] unfolding rt by (simp add: scoreSum_def)
  ultimately show ?thesis using p by blast
qed

text \<open>
  C2. For every request and every behaviour of the four extractors, \<open>analyze\<close> returns
  a result and no error: the platforms of the result are the analyses of the requested
  extractors that did not throw, in the order code host, microblog, slide deck, blog, so
  a failing platform is left out; the tech stack, the personality and the summary are the
  merge of these platforms. When no platform is left (every requested extractor failed),
  the result is the empty aggregate, with a non-empty summary.
\<close>

theorem analyze_survives_failures:
  "\<exists>r. snd (analyze svc request) = Inr r
     \<and> platforms r =
         succeeded (githubService svc) (github request)
         @ succeeded (twitterService svc) (twitter request)
         @ succeeded (speakerDeckService svc) (speakerdeck request)
         @ succeeded (blogService svc) (blog request)
     \<and> res_techStack r = mergeTechStacks (platforms r)
     \<and> res_personality r = mergePersonalities (platforms r)
     \<and> summary r = generateSummary (platforms r) (res_techStack r) (res_personality r)
     \<and> (platforms r = [] \<longrightarrow>
          res_techStack r = \<lparr> languages = [], frameworks = [], tools = [], topics = [] \<rparr>
          \<and> res_personality r =
              \<lparr> interests = [], activities = [],
                communication = \<lparr> style = Some label_insufficient, frequency = Some 0,
                                  comm_topics = Some [] \<rparr>,
                workStyle = None \<rparr>
          \<and> summary r = noDataSummary \<and> summary r \<noteq> [])"
proof -
  define ps where "ps = snd (runExtractors svc request)"
  define r where "r = \<lparr> platforms = ps, res_techStack = mergeTechStacks ps,
             res_personality = mergePersonalities ps,
             summary = generateSummary ps (mergeTechStacks ps) (mergePersonalities ps) \<rparr>"
  have a: "snd (analyze svc request) = Inr r"
    by (simp add: analyze_def Let_def r_def ps_def)
  have p: "platforms r = ps" by (simp add: r_def)
  have b: "ps = succeeded (githubService svc) (github request)
         @ succeeded (twitterService svc) (twitter request)
         @ succeeded (speakerDeckService svc) (speakerdeck request)
         @ succeeded (blogService svc) (blog request)"
    by (simp add: ps_def runExtractors_snd)
  have t: "res_techStack r = mergeTechStacks ps" by (simp add: r_def)
  have q: "res_personality r = mergePersonalities ps" by (simp add: r_def)
  have s: "summary r = generateSummary ps (mergeTechStacks ps) (mergePersonalities ps)"
    by (simp add: r_def)
  have n: "noDataSummary \<noteq> []" by (simp add: noDataSummary_def txt_summary_head_def)
  have c: "res_techStack r = \<lparr> languages = [], frameworks = [], tools = [], topics = [] \<rparr>
        \<and> res_personality r =
              \<lparr> interests = [], activities = [],
                communication = \<lparr> style = Some label_insufficient, frequency = Some 0,
                                  comm_topics = Some [] \<rparr>,
                workStyle = None \<rparr>
        \<and> summary r = noDataSummary \<and> summary r \<noteq> []" if "platforms r = []"
  proof -
    have e: "ps = []" using that p by simp
    have "generateSummary [] (mergeTechStacks []) (mergePersonalities []) \<noteq> []"
      using n by (simp only: generateSummary_Nil not_False_eq_True)
    then show ?thesis
      unfolding t q s e
      by (intro conjI) (rule mergeTechStacks_Nil mergePersonalities_Nil generateSummary_Nil, assumption?)+
  qed
  show ?thesis
  proof (intro exI [of _ r] conjI impI)
    show "snd (analyze svc request) = Inr r" by (rule a)
    show "platforms r = succeeded (githubService svc) (github request)
         @ succeeded (twitterService svc) (twitter request)
         @ succeeded (speakerDeckService svc) (speakerdeck request)
         @ succeeded (blogService svc) (blog request)" using p b by simp
    show "res_techStack r = mergeTechStacks (platforms r)" using t p by simp
    show "res_personality r = mergePersonalities (platforms r)" using q p by simp
    show "summary r = generateSummary (platforms r) (res_techStack r) (res_personality r)"
      using s t q p by simp
  next
    assume e: "platforms r = []"
    show "res_techStack r = \<lparr> languages = [], frameworks = [], tools = [], topics = [] \<rparr>"
      using c [OF e] by blast
    show "res_personality r =
              \<lparr> interests = [], activities = [],
                communication = \<lparr> style = Some label_insufficient, frequency = Some 0,
                                  comm_topics = Some [] \<rparr>,
                workStyle = None \<rparr>" using c [OF e] by blast
    show "summary r = noDataSummary" using c [OF e] by blast
    show "summary r \<noteq> []" using c [OF e] by blast
  qed
qed

text \<open>
  Two requests: both requested extractors fail, which gives the empty aggregate; and the
  code-host extractor fails while the blog extractor succeeds, which gives the blog
  analysis alone.
\<close>

theorem analyze_survives_failures_witness:
  "(\<exists>r. snd (analyze
            \<lparr> githubService = alwaysFails, twitterService = alwaysFails,
              speakerDeckService = alwaysFails, blogService = alwaysFails \<rparr>
            \<lparr> github = Some (ascii ''https://github.com/u''),
              twitter = Some (ascii ''https://x.com/u''), speakerdeck = None, blog = None \<rparr>)
          = Inr r
        \<and> platforms r = [] \<and> summary r = noDataSummary)
   \<and> (\<exists>r. snd (analyze
            \<lparr> githubService = alwaysFails, twitterService = alwaysFails,
              speakerDeckService = alwaysFails,
              blogService = (\<lambda>u. Inr (platformWith BLOG None None None None)) \<rparr>
            \<lparr> github = Some (ascii ''https://github.com/u''), twitter = None,
              speakerdeck = None, blog = Some (ascii ''https://example.com/blog'') \<rparr>)
          = Inr r
        \<and> platforms r = [platformWith BLOG None None None None])"
proof -
  let ?svc1 = "\<lparr> githubService = alwaysFails, twitterService = alwaysFails,
              speakerDeckService = alwaysFails, blogService = alwaysFails \<rparr>"
  let ?req1 = "\<lparr> github = Some (ascii ''https://github.com/u''),
              twitter = Some (ascii ''https://x.com/u''), speakerdeck = None, blog = None \<rparr>"
  let ?svc2 = "\<lparr> githubService = alwaysFails, twitterService = alwaysFails,
              speakerDeckService = alwaysFails,
              blogService = (\<lambda>u. Inr (platformWith BLOG None None None None)) \<rparr>"
  let ?req2 = "\<lparr> github = Some (ascii ''https://github.com/u''), twitter = None,
              speakerdeck = None, blog = Some (ascii ''https://example.com/blog'') \<rparr>"
  from analyze_survives_failures [of ?svc1 ?req1]
  obtain r1 where r1: "snd (analyze ?svc1 ?req1) = Inr r1"
      "platforms r1 =
         succeeded (githubService ?svc1) (github ?req1)
         @ succeeded (twitterService ?svc1) (twitter ?req1)
         @ succeeded (speakerDeckService ?svc1) (speakerdeck ?req1)
         @ succeeded (blogService ?svc1) (blog ?req1)"
      "platforms r1 = [] \<longrightarrow> summary r1 = noDataSummary"
    by blast
  have e1: "platforms r1 = []"
    unfolding r1(2) by (simp add: succeeded_def alwaysFails_def ascii_def)
  from analyze_survives_failures [of ?svc2 ?req2]
  obtain r2 where r2: "snd (analyze ?svc2 ?req2) = Inr r2"
      "platforms r2 =
         succeeded (githubService ?svc2) (github ?req2)
         @ succeeded (twitterService ?svc2) (twitter ?req2)
         @ succeeded (speakerDeckService ?svc2) (speakerdeck ?req2)
         @ succeeded (blogService ?svc2) (blog ?req2)"
    by blast
  have e2: "platforms r2 = [platformWith BLOG None None None None]"
    unfolding r2(2) by (simp add: succeeded_def alwaysFails_def ascii_def)
  show ?thesis using r1(1,3) e1 r2(1) e2 by blast
qed

text \<open>
  C3, as the code has it. A code-host, microblog or slide-deck URL that is given as a
  non-empty string and does not match the pattern of its platform is rejected with an
  invalid-parameters error, with the cache unchanged and no extractor called. The blog
  URL is not validated by the handler: when the other URLs pass, some URL is given and
  the request is not cached, the handler calls the extractor of every non-empty URL, the
  blog extractor included, and answers with the summary of the platforms whose extractor
  did not throw. The blog extractor itself rejects a URL that the URL parser does not
  accept, before its page fetch (whatever the \<open>try\<close> block would do), and the blog
  platform is then left out of the analysis.
\<close>

theorem callTool_validates_three_urls:
  "(malformed github_url_re (github args) \<or> malformed twitter_url_re (twitter args)
      \<or> malformed speakerdeck_url_re (speakerdeck args) \<longrightarrow>
      (\<exists>msg. callTool svc analysisCache (ascii ''how-person'') args =
         (analysisCache, [], Inl (McpError InvalidParams msg))))
   \<and> (\<not> malformed github_url_re (github args) \<and> \<not> malformed twitter_url_re (twitter args)
        \<and> \<not> malformed speakerdeck_url_re (speakerdeck args)
        \<and> (truthy (github args) \<or> truthy (twitter args) \<or> truthy (speakerdeck args)
             \<or> truthy (blog args))
        \<and> analysisCache args = None \<longrightarrow>
        (\<exists>r :: AnalysisResult. callTool svc analysisCache (ascii ''how-person'') args =
             (analysisCache(args \<mapsto> summary r), requestedCalls args, Inr (summary r))
           \<and> platforms r =
               succeeded (githubService svc) (github args)
               @ succeeded (twitterService svc) (twitter args)
               @ succeeded (speakerDeckService svc) (speakerdeck args)
               @ succeeded (blogService svc) (blog args)
           \<and> summary r = generateSummary (platforms r) (mergeTechStacks (platforms r))
                            (mergePersonalities (platforms r))))
   \<and> (blog args = Some b \<and> b \<noteq> [] \<longrightarrow> (BLOG, b) \<in> set (requestedCalls args))
   \<and> (blog args = Some b \<and> blogService svc = BlogService_analyze rest body
        \<and> URL_hostname rest b = None \<longrightarrow>
        blogService svc b = Inl (JsError (ascii ''Error'') (ascii ''Invalid Blog URL''))
        \<and> succeeded (blogService svc) (blog args) = [])"
  using callTool_rejects [of args svc analysisCache]
    callTool_answers [of args analysisCache svc]
    requested_blog [of args b]
    blog_left_out [of args b svc rest body]
  by blast


text \<open>
  The claim as stated fails for the blog field: the string \<open>not a url\<close> is not a URL,
  yet the handler calls the blog extractor with it and answers with a summary, not with
  an invalid-parameters error.
\<close>

theorem blog_url_not_validated_counterexample:
  "BlogService_extractDomain Some (ascii ''not a url'') =
     Inl (JsError (ascii ''Error'') (ascii ''Invalid Blog URL''))
   \<and> snd (callTool
        \<lparr> githubService = alwaysFails, twitterService = alwaysFails,
          speakerDeckService = alwaysFails,
          blogService = BlogService_analyze Some failingBody \<rparr>
        Map.empty (ascii ''how-person'')
        \<lparr> github = None, twitter = None, speakerdeck = None,
          blog = Some (ascii ''not a url'') \<rparr>)
     = ([(BLOG, ascii ''not a url'')], Inr noDataSummary)"
proof -
  let ?svc = "\<lparr> githubService = alwaysFails, twitterService = alwaysFails,
          speakerDeckService = alwaysFails,
          blogService = BlogService_analyze Some failingBody \<rparr>"
  let ?req = "\<lparr> github = None, twitter = None, speakerdeck = None,
          blog = Some (ascii ''not a url'') \<rparr>"
  have d: "BlogService_extractDomain Some (ascii ''not a url'') =
     Inl (JsError (ascii ''Error'') (ascii ''Invalid Blog URL''))"
    by (simp add: BlogService_extractDomain_def not_a_url_unparsable)
  have b: "BlogService_analyze Some failingBody (ascii ''not a url'') =
     Inl (JsError (ascii ''Error'') (ascii ''Invalid Blog URL''))"
    by (rule blog_rejects_unparsable) (rule not_a_url_unparsable)
  have ne: "ascii ''not a url'' \<noteq> []" by (simp add: ascii_def)
  have r: "runExtractors ?svc ?req = ([(BLOG, ascii ''not a url'')], [])"
    using ne by (simp add: runExtractors_def runExtractor_def b)
  have a: "analyze ?svc ?req =
      ([(BLOG, ascii ''not a url'')],
       Inr \<lparr> platforms = [], res_techStack = mergeTechStacks [],
             res_personality = mergePersonalities [], summary = noDataSummary \<rparr>)"
    by (simp add: analyze_def Let_def r generateSummary_Nil)
  have "snd (callTool ?svc Map.empty (ascii ''how-person'') ?req)
     = ([(BLOG, ascii ''not a url'')], Inr noDataSummary)"
    using ne by (simp add: callTool_def malformed_def truthy_def a)
  then show ?thesis using d by simp
qed


text \<open>
  A code-host URL without a username is rejected; a blog URL that is not a URL reaches
  the blog extractor, which rejects it, and the call answers with the summary of an
  analysis without platforms.
\<close>

theorem callTool_validates_three_urls_witness:
  "(\<exists>msg. callTool
        \<lparr> githubService = alwaysFails, twitterService = alwaysFails,
          speakerDeckService = alwaysFails,
          blogService = BlogService_analyze Some failingBody \<rparr>
        Map.empty (ascii ''how-person'')
        \<lparr> github = Some (ascii ''https://github.com/''), twitter = None, speakerdeck = None,
          blog = None \<rparr>
       = (Map.empty, [], Inl (McpError InvalidParams msg)))
   \<and> (\<exists>r :: AnalysisResult. callTool
        \<lparr> githubService = alwaysFails, twitterService = alwaysFails,
          speakerDeckService = alwaysFails,
          blogService = BlogService_analyze Some failingBody \<rparr>
        Map.empty (ascii ''how-person'')
        \<lparr> github = None, twitter = None, speakerdeck = None,
          blog = Some (ascii ''not a url'') \<rparr>
       = ([\<lparr> github = None, twitter = None, speakerdeck = None,
              blog = Some (ascii ''not a url'') \<rparr> \<mapsto> summary r],
          [(BLOG, ascii ''not a url'')], Inr (summary r))
       \<and> platforms r = [] \<and> summary r = noDataSummary)"
proof -
  let ?svc = "\<lparr> githubService = alwaysFails, twitterService = alwaysFails,
          speakerDeckService = alwaysFails,
          blogService = BlogService_analyze Some failingBody \<rparr>"
  let ?req1 = "\<lparr> github = Some (ascii ''https://github.com/''), twitter = None,
          speakerdeck = None, blog = None \<rparr>"
  let ?req2 = "\<lparr> github = None, twitter = None, speakerdeck = None,
          blog = Some (ascii ''not a url'') \<rparr>"
  let ?b = "ascii ''not a url''"
  have m: "malformed github_url_re (github ?req1)" using no_username_malformed by simp
  have ne: "?b \<noteq> []" by (simp add: ascii_def)
  have ok: "\<not> malformed github_url_re (github ?req2)" "\<not> malformed twitter_url_re (twitter ?req2)"
    "\<not> malformed speakerdeck_url_re (speakerdeck ?req2)" "blog ?req2 = Some ?b"
    "Map.empty ?req2 = None" "blogService ?svc = BlogService_analyze Some failingBody"
    by (simp_all add: malformed_def)
  have t: "truthy (blog ?req2)" using ne by (simp add: truthy_def)
  from callTool_validates_three_urls
         [where args = ?req1 and svc = ?svc and analysisCache = Map.empty and b = "[]"
            and rest = Some and body = failingBody] m
  have 1: "\<exists>msg. callTool ?svc Map.empty (ascii ''how-person'') ?req1
       = (Map.empty, [], Inl (McpError InvalidParams msg))" by blast
  note T = callTool_validates_three_urls
         [where args = ?req2 and svc = ?svc and analysisCache = Map.empty
            and b = ?b and rest = Some and body = failingBody]
  from T ok t obtain r :: AnalysisResult where r:
    "callTool ?svc Map.empty (ascii ''how-person'') ?req2 =
       (Map.empty(?req2 \<mapsto> summary r), requestedCalls ?req2, Inr (summary r))"
    "platforms r =
               succeeded (githubService ?svc) (github ?req2)
               @ succeeded (twitterService ?svc) (twitter ?req2)
               @ succeeded (speakerDeckService ?svc) (speakerdeck ?req2)
               @ succeeded (blogService ?svc) (blog ?req2)"
    "summary r = generateSummary (platforms r) (mergeTechStacks (platforms r))
                            (mergePersonalities (platforms r))"
    by blast
  from T ok not_a_url_unparsable [of Some]
  have out: "succeeded (blogService ?svc) (blog ?req2) = []" by blast
  have calls: "requestedCalls ?req2 = [(BLOG, ?b)]"
    using ne by (simp add: requestedCalls_def requested_def)
  have e: "platforms r = []"
    unfolding r(2) out by (simp add: succeeded_def)
  have s: "summary r = noDataSummary"
    unfolding r(3) e by (rule generateSummary_Nil)
  have c2: "callTool ?svc Map.empty (ascii ''how-person'') ?req2 =
       (Map.empty(?req2 \<mapsto> summary r), [(BLOG, ?b)], Inr (summary r))"
    using r(1) unfolding calls .
  have 2: "\<exists>r :: AnalysisResult. callTool ?svc Map.empty (ascii ''how-person'') ?req2 =
       (Map.empty(?req2 \<mapsto> summary r), [(BLOG, ?b)], Inr (summary r))
       \<and> platforms r = [] \<and> summary r = noDataSummary"
    by (intro exI [of _ r] conjI) (rule c2 e s)+
  from 1 2 show ?thesis by (rule conjI)
qed

text \<open>
  C4. For every non-empty list of platform analyses, the merged communication frequency
  is the sum of the frequencies that are present and not zero, divided by the number of
  all platform analyses (not by the number of those that report a frequency).
\<close>

theorem mergePersonalities_frequency:
  "analyses \<noteq> [] \<Longrightarrow>
   frequency (communication (mergePersonalities analyses)) =
     Some (sum_list (filter (\<lambda>f. f \<noteq> 0)
                      (List.map_filter (\<lambda>a. commFrequency (personality a)) analyses))
           / real (length analyses))"
  by (simp add: mergePersonalities_def Let_def pfold_frequency)

text \<open>
  The example of the specification: one platform reports frequency 10, the other reports
  0 or nothing; with two platforms the merged frequency is 5.
\<close>

theorem mergePersonalities_frequency_witness:
  "frequency (communication (mergePersonalities
      [platformWith TWITTER None None
         (Some \<lparr> style = None, frequency = Some 10, comm_topics = None \<rparr>) None,
       platformWith GITHUB None None
         (Some \<lparr> style = None, frequency = Some 0, comm_topics = None \<rparr>) None])) = Some 5
   \<and> frequency (communication (mergePersonalities
      [platformWith TWITTER None None
         (Some \<lparr> style = None, frequency = Some 10, comm_topics = None \<rparr>) None,
       platformWith GITHUB None None None None])) = Some 5"
  using mergePersonalities_frequency
     [of "[platformWith TWITTER None None
         (Some \<lparr> style = None, frequency = Some 10, comm_topics = None \<rparr>) None,
       platformWith GITHUB None None
         (Some \<lparr> style = None, frequency = Some 0, comm_topics = None \<rparr>) None]"]
    mergePersonalities_frequency
     [of "[platformWith TWITTER None None
         (Some \<lparr> style = None, frequency = Some 10, comm_topics = None \<rparr>) None,
       platformWith GITHUB None None None None]"]
  by (simp add: platformWith_def commFrequency_def List.map_filter_simps)

text \<open>
  C5. The merged communication style of no style string is the label for insufficient
  information, and that of one style string is the string itself. For two or more, each
  string is matched against the nine keyword categories: when no category matches any
  string the result is the first style string; when exactly one category matched, the
  label is made from its keyword; when two or more matched, the label is made from two
  different matched keywords, the first with a count at least that of the second, and
  every keyword other than the first with a count at most that of the second.
\<close>

theorem summarizeCommunicationStyle_cases:
  "summarizeCommunicationStyle [] = label_insufficient
   \<and> summarizeCommunicationStyle [s] = s
   \<and> map snd keywordPatterns =
       [kw_technical, kw_educational, kw_leadership, kw_cooperative, kw_individual,
        kw_concise, kw_detailed, kw_balance, kw_influence]
   \<and> (2 \<le> length styles \<longrightarrow>
        ((\<forall>k. matchCount styles k = 0) \<longrightarrow> summarizeCommunicationStyle styles = hd styles)
        \<and> (\<forall>k0. 0 < matchCount styles k0 \<and> (\<forall>k. 0 < matchCount styles k \<longrightarrow> k = k0) \<longrightarrow>
              summarizeCommunicationStyle styles = k0 @ txt_na_comm_style)
        \<and> ((\<exists>k k'. k \<noteq> k' \<and> 0 < matchCount styles k \<and> 0 < matchCount styles k') \<longrightarrow>
              (\<exists>k0 k1. summarizeCommunicationStyle styles = k0 @ txt_katsu @ k1 @ txt_na_comm_style
                 \<and> k0 \<noteq> k1 \<and> 0 < matchCount styles k0 \<and> 0 < matchCount styles k1
                 \<and> matchCount styles k1 \<le> matchCount styles k0
                 \<and> (\<forall>j. j \<noteq> k0 \<longrightarrow> matchCount styles j \<le> matchCount styles k1))))"
proof -
  have 1: "summarizeCommunicationStyle [] = label_insufficient"
    by (simp add: summarizeCommunicationStyle_def)
  have 2: "summarizeCommunicationStyle [s] = s"
    by (simp add: summarizeCommunicationStyle_def)
  have 3: "map snd keywordPatterns =
       [kw_technical, kw_educational, kw_leadership, kw_cooperative, kw_individual,
        kw_concise, kw_detailed, kw_balance, kw_influence]"
    by (simp add: keywordPatterns_def)
  show ?thesis
    using 1 2 3 summarize_none [of styles] summarize_one [of styles] summarize_two [of styles]
    by blast
qed

text \<open>
  Three inputs of two style strings: no category matches; only \<open>balance\<close> matches; and
  \<open>technical\<close> matches both strings while \<open>detailed\<close> matches one.
\<close>

theorem summarizeCommunicationStyle_cases_witness:
  "summarizeCommunicationStyle [ascii ''a'', ascii ''b''] = ascii ''a''
   \<and> summarizeCommunicationStyle [[0x30D0, 0x30E9, 0x30F3, 0x30B9], ascii ''b'']
       = kw_balance @ txt_na_comm_style
   \<and> summarizeCommunicationStyle [[0x6280, 0x8853], [0x6280, 0x8853, 0x4E01, 0x5BE7]]
       = kw_technical @ txt_katsu @ kw_detailed @ txt_na_comm_style"
proof -
  let ?s1 = "[ascii ''a'', ascii ''b'']"
  let ?s2 = "[[0x30D0, 0x30E9, 0x30F3, 0x30B9], ascii ''b'']"
  let ?s3 = "[[0x6280, 0x8853], [0x6280, 0x8853, 0x4E01, 0x5BE7]]"
  have td: "kw_technical \<noteq> kw_detailed" by (simp add: kw_defs)
  have 1: "summarizeCommunicationStyle ?s1 = ascii ''a''"
    using summarizeCommunicationStyle_cases [of _ ?s1] by (simp add: mc_none)
  have 2: "summarizeCommunicationStyle ?s2 = kw_balance @ txt_na_comm_style"
    using summarizeCommunicationStyle_cases [of _ ?s2] by (simp add: mc_one)
  have ex: "\<exists>k k'. k \<noteq> k' \<and> 0 < matchCount ?s3 k \<and> 0 < matchCount ?s3 k'"
    using td by (intro exI [of _ kw_technical] exI [of _ kw_detailed]) (simp add: mc_two)
  have len: "2 \<le> length ?s3" by simp
  from summarizeCommunicationStyle_cases [of "[]" ?s3] len ex
  have "\<exists>k0 k1. summarizeCommunicationStyle ?s3 = k0 @ txt_katsu @ k1 @ txt_na_comm_style
          \<and> k0 \<noteq> k1 \<and> 0 < matchCount ?s3 k0 \<and> 0 < matchCount ?s3 k1
          \<and> matchCount ?s3 k1 \<le> matchCount ?s3 k0
          \<and> (\<forall>j. j \<noteq> k0 \<longrightarrow> matchCount ?s3 j \<le> matchCount ?s3 k1)"
    by blast
  then obtain k0 k1 where r:
      "summarizeCommunicationStyle ?s3 = k0 @ txt_katsu @ k1 @ txt_na_comm_style"
      "k0 \<noteq> k1" "0 < matchCount ?s3 k0" "0 < matchCount ?s3 k1"
      "matchCount ?s3 k1 \<le> matchCount ?s3 k0"
    by blast
  have "k0 = kw_technical \<or> k0 = kw_detailed" using r(3) by (simp add: mc_two split: if_splits)
  moreover have "k1 = kw_technical \<or> k1 = kw_detailed" using r(4) by (simp add: mc_two split: if_splits)
  ultimately have "k0 = kw_technical \<and> k1 = kw_detailed"
    using r(2,5) td by (auto simp: mc_two)
  then show ?thesis using 1 2 r(1) by simp
qed

text \<open>
  C6. When some platform reports a non-empty work-style label, and the labels are plain
  property names, the merged work style is a label that occurs most often among these
  labels, and every label met before its first occurrence occurs strictly less often:
  ties go to the label met first.
\<close>

theorem workStyle_plurality:
  "workStyleLabels analyses \<noteq> [] \<Longrightarrow>
   \<forall>w \<in> set (workStyleLabels analyses). plainKey w \<Longrightarrow>
   \<exists>w. workStyle (mergePersonalities analyses) = Some w
     \<and> w \<in> set (workStyleLabels analyses)
     \<and> (\<forall>v \<in> set (workStyleLabels analyses).
           count_list (workStyleLabels analyses) v \<le> count_list (workStyleLabels analyses) w)
     \<and> (\<forall>v \<in> set (takeWhile (\<lambda>z. z \<noteq> w) (workStyleLabels analyses)).
           count_list (workStyleLabels analyses) v < count_list (workStyleLabels analyses) w)"
proof -
  assume ne: "workStyleLabels analyses \<noteq> []"
  have "[] \<notin> set (workStyleLabels analyses)"
    by (simp add: workStyleLabels_def truthyOnes_nonempty)
  with ne show ?thesis
    unfolding merged_workStyle by (rule dominantWorkStyle_plurality)
qed

text \<open>
  The example of the specification: the labels \<open>collaborative\<close>, \<open>collaborative\<close>,
  \<open>solo\<close> merge to \<open>collaborative\<close>.
\<close>

theorem workStyle_plurality_witness:
  "workStyleLabels
     [platformWith GITHUB None None None (Some (ascii ''collaborative'')),
      platformWith SPEAKERDECK None None None (Some (ascii ''collaborative'')),
      platformWith BLOG None None None (Some (ascii ''solo''))] \<noteq> []
   \<and> plainKey (ascii ''collaborative'') \<and> plainKey (ascii ''solo'')
   \<and> workStyle (mergePersonalities
        [platformWith GITHUB None None None (Some (ascii ''collaborative'')),
         platformWith SPEAKERDECK None None None (Some (ascii ''collaborative'')),
         platformWith BLOG None None None (Some (ascii ''solo''))])
      = Some (ascii ''collaborative'')"
proof -
  let ?ex = "[platformWith GITHUB None None None (Some (ascii ''collaborative'')),
      platformWith SPEAKERDECK None None None (Some (ascii ''collaborative'')),
      platformWith BLOG None None None (Some (ascii ''solo''))]"
  let ?c = "ascii ''collaborative''" and ?s = "ascii ''solo''"
  have p: "plainKey ?c" "plainKey ?s"
    by (simp_all add: plainKey_def isArrayIndex_def isDigit_def objectPrototypeNames_def ascii_def)
  have l: "workStyleLabels ?ex = [?c, ?c, ?s]"
    by (simp add: workStyleLabels_def truthyOnes_def platformWith_def ascii_def)
  have ne: "workStyleLabels ?ex \<noteq> []" unfolding l by simp
  have pl: "\<forall>w \<in> set (workStyleLabels ?ex). plainKey w" unfolding l using p by simp
  from workStyle_plurality [OF ne pl] obtain w where
    w: "workStyle (mergePersonalities ?ex) = Some w" "w \<in> set [?c, ?c, ?s]"
       "\<forall>v \<in> set [?c, ?c, ?s]. count_list [?c, ?c, ?s] v \<le> count_list [?c, ?c, ?s] w"
    unfolding l by blast
  have "?s \<noteq> ?c" by (simp add: ascii_def)
  then have "w = ?c" using w(2,3) by auto
  then show ?thesis using w(1) ne p by simp
qed

text \<open>
  C7. For every microblog URL from which a username can be extracted, the microblog
  extractor without an API client returns an analysis and throws nothing: its topics,
  interests and activities are empty, its frequency is 0 and its communication style is
  the label for insufficient information.
\<close>

theorem twitter_without_credentials:
  "TwitterService_extractUsername u = Inr name \<Longrightarrow>
   TwitterService_analyze None u =
     Inr \<lparr> platform = TWITTER, url = u,
           techStack = \<lparr> opt_languages = None, opt_frameworks = None, opt_tools = None,
                         opt_topics = Some [] \<rparr>,
           personality =
             \<lparr> opt_interests = Some [], opt_activities = Some [],
               opt_communication =
                 Some \<lparr> style = Some label_insufficient, frequency = Some 0,
                        comm_topics = Some [] \<rparr>,
               opt_workStyle = None \<rparr> \<rparr>"
  by (simp add: TwitterService_analyze_def fetchTwitter_def twitterAnalysis_def
      extractTopics_Nil extractHashtags_Nil TwitterService_analyzeCommStyle_def
      calculateTweetFrequency_def)


theorem twitter_without_credentials_witness:
  "TwitterService_extractUsername (ascii ''https://twitter.com/alice'') = Inr (ascii ''alice'')
   \<and> TwitterService_analyze None (ascii ''https://twitter.com/alice'') =
     Inr \<lparr> platform = TWITTER, url = ascii ''https://twitter.com/alice'',
           techStack = \<lparr> opt_languages = None, opt_frameworks = None, opt_tools = None,
                         opt_topics = Some [] \<rparr>,
           personality =
             \<lparr> opt_interests = Some [], opt_activities = Some [],
               opt_communication =
                 Some \<lparr> style = Some label_insufficient, frequency = Some 0,
                        comm_topics = Some [] \<rparr>,
               opt_workStyle = None \<rparr> \<rparr>"
  using twitter_without_credentials [OF username_alice] username_alice by simp

text \<open>
  C8. The communication style of the code host is meant to be collaborative when some
  repository has more than one contributor. The code tests the length of the string
  \<open>contributors_url\<close>, the URL of the contributors endpoint, so one repository with no
  stars and no description, whose contributors URL is a single URL of 45 characters, is
  classified as collaborative.
\<close>

theorem github_style_of_one_plain_repository:
  "GitHubService_analyzeCommStyle
     [\<lparr> repo_description = None,
        contributors_url = Some (ascii ''https://api.github.com/repos/u/r/contributors''),
        stargazers_count = Some 0 \<rparr>] = label_collaborative"
  by (simp add: GitHubService_analyzeCommStyle_def ascii_def)

text \<open>
  C9, as the code has it. The article discovery uses the first structural selector, in
  the fixed order, that yields an article, and only that one; an element yields an
  article exactly when its trimmed heading and its trimmed text are not empty. When no
  selector yields an article, every link whose \<open>href\<close> is not empty, contains a slash
  and does not start with \<open>http\<close>, and whose trimmed text is longer than 20 code units,
  becomes an article stub; so a page without structural articles and with one such link
  has at least one article.
\<close>

theorem discoverArticles_first_selector_then_links:
  "discoverArticles resolve doc baseUrl =
    (case find (\<lambda>sel. yields resolve doc baseUrl sel \<noteq> []) articleSelectors of
       Some sel \<Rightarrow> yields resolve doc baseUrl sel
     | None \<Rightarrow> List.map_filter (stubOf resolve baseUrl) (anchors doc))
   \<and> (articleOf resolve baseUrl el \<noteq> None \<longleftrightarrow>
        trim (el_heading el) \<noteq> [] \<and> trim (el_text el) \<noteq> [])
   \<and> (stubOf resolve baseUrl a \<noteq> None \<longleftrightarrow> stubLink a)
   \<and> (a_href a = Some href \<and> stubLink a \<longrightarrow>
        stubOf resolve baseUrl a =
          Some \<lparr> title = trim (a_text a), article_url = normalizeUrl resolve href baseUrl,
                 content = trim (a_text a), date = None \<rparr>)
   \<and> ((\<forall>sel \<in> set articleSelectors. yields resolve doc baseUrl sel = [])
        \<and> list_ex stubLink (anchors doc) \<longrightarrow>
        1 \<le> length (discoverArticles resolve doc baseUrl))"
proof -
  have last: "1 \<le> length (discoverArticles resolve doc baseUrl)"
    if none: "\<forall>sel \<in> set articleSelectors. yields resolve doc baseUrl sel = []"
      and some: "list_ex stubLink (anchors doc)"
  proof -
    have "find (\<lambda>sel. yields resolve doc baseUrl sel \<noteq> []) articleSelectors = None"
      using none by (simp add: find_None_iff)
    then have "discoverArticles resolve doc baseUrl =
        List.map_filter (stubOf resolve baseUrl) (anchors doc)"
      by (simp add: discoverArticles_eq)
    moreover have "List.map_filter (stubOf resolve baseUrl) (anchors doc) \<noteq> []"
    proof -
      from some obtain x where x: "x \<in> set (anchors doc)" "stubLink x"
        by (auto simp: list_ex_iff)
      then have "stubOf resolve baseUrl x \<noteq> None"
        using stubOf_iff [of resolve baseUrl x] by blast
      then obtain y where "stubOf resolve baseUrl x = Some y" by (cases "stubOf resolve baseUrl x") auto
      with x(1) show ?thesis by (rule map_filter_nonempty)
    qed
    ultimately show ?thesis by (simp add: Suc_le_eq)
  qed
  show ?thesis
    using discoverArticles_eq [of resolve doc baseUrl] articleOf_kept [of resolve baseUrl el]
      stubOf_iff [of resolve baseUrl a] stubOf_value [of a href resolve baseUrl] last
    by blast
qed


text \<open>
  The claim as stated fails for a relative link without a slash: the page has no
  structural match and a link to \<open>first-post.html\<close> with a text of 32 characters, and no
  article is found.
\<close>

theorem relative_link_without_slash_counterexample:
  "20 < length (trim (ascii ''My first post about the new site''))
   \<and> \<not> startsWith (ascii ''first-post.html'') (ascii ''http'')
   \<and> discoverArticles noResolve
        \<lparr> select = (\<lambda>selector. []),
          anchors = [\<lparr> a_href = Some (ascii ''first-post.html''),
                       a_text = ascii ''My first post about the new site'' \<rparr>] \<rparr>
        (ascii ''https://example.com/'') = []"
  by (simp add: discoverArticles_def articleSelectors_def List.map_filter_simps stubOf_def
      trim_def isWhiteSpace_def startsWith_def ascii_def)


text \<open>The same page with the link \<open>/posts/first\<close> has an article.\<close>

theorem discoverArticles_first_selector_then_links_witness:
  "stubLink \<lparr> a_href = Some (ascii ''/posts/first''),
              a_text = ascii ''My first post about the new site'' \<rparr>
   \<and> 1 \<le> length (discoverArticles noResolve
        \<lparr> select = (\<lambda>selector. []),
          anchors = [\<lparr> a_href = Some (ascii ''/posts/first''),
                       a_text = ascii ''My first post about the new site'' \<rparr>] \<rparr>
        (ascii ''https://example.com/''))"
proof -
  let ?a = "\<lparr> a_href = Some (ascii ''/posts/first''),
              a_text = ascii ''My first post about the new site'' \<rparr>"
  let ?doc = "\<lparr> select = (\<lambda>selector. []), anchors = [?a] \<rparr>"
  have s: "stubLink ?a"
    by (simp add: stubLink_def trim_def isWhiteSpace_def startsWith_def ascii_def)
  have n: "\<forall>sel \<in> set articleSelectors. yields noResolve ?doc (ascii ''https://example.com/'') sel = []"
    by (simp add: yields_def List.map_filter_simps)
  have l: "list_ex stubLink (anchors ?doc)" using s by simp
  from discoverArticles_first_selector_then_links
         [of noResolve ?doc "ascii ''https://example.com/''" undefined ?a "[]"] n l
  have "1 \<le> length (discoverArticles noResolve ?doc (ascii ''https://example.com/''))"
    by blast
  then show ?thesis using s by simp
qed

text \<open>
  C10. For every list of platform analyses, the empty one included, the merged
  personality has a communication style that is a non-empty string (the label for
  insufficient information when no platform contributes a style) and a communication
  frequency that is a number (0 for the empty list); when the work-style labels are plain
  property names, its work style is missing exactly when no platform reports a non-empty
  work-style label.
\<close>

theorem mergePersonalities_total:
  "(\<exists>s. style (communication (mergePersonalities analyses)) = Some s \<and> s \<noteq> [])
   \<and> (\<not> list_ex (\<lambda>a. truthy (commStyle (personality a))) analyses \<longrightarrow>
        style (communication (mergePersonalities analyses)) = Some label_insufficient)
   \<and> (\<exists>f. frequency (communication (mergePersonalities analyses)) = Some f)
   \<and> frequency (communication (mergePersonalities [])) = Some 0
   \<and> ((\<forall>w \<in> set (workStyleLabels analyses). plainKey w) \<longrightarrow>
        (workStyle (mergePersonalities analyses) = None \<longleftrightarrow>
         \<not> list_ex (\<lambda>a. truthy (opt_workStyle (personality a))) analyses))"
proof -
  have 1: "\<exists>s. style (communication (mergePersonalities analyses)) = Some s \<and> s \<noteq> []"
    by (simp add: merged_style summarize_nonempty styleStrings_def truthyOnes_nonempty)
  have 2: "style (communication (mergePersonalities analyses)) = Some label_insufficient"
    if "\<not> list_ex (\<lambda>a. truthy (commStyle (personality a))) analyses"
  proof -
    have "styleStrings analyses = []"
      using that by (simp add: styleStrings_def truthyOnes_Nil_iff list_ex_iff)
    then show ?thesis by (simp add: merged_style summarizeCommunicationStyle_def)
  qed
  have 3: "\<exists>f. frequency (communication (mergePersonalities analyses)) = Some f"
    by (simp add: mergePersonalities_def Let_def)
  have 4: "frequency (communication (mergePersonalities [])) = Some 0"
    by (simp add: mergePersonalities_def Let_def)
  have 5: "workStyle (mergePersonalities analyses) = None \<longleftrightarrow>
        \<not> list_ex (\<lambda>a. truthy (opt_workStyle (personality a))) analyses"
    unfolding merged_workStyle
    by (simp add: dominantWorkStyle_None_iff workStyleLabels_def truthyOnes_nonempty
        truthyOnes_Nil_iff list_ex_iff)
  from 1 2 3 4 5 show ?thesis by blast
qed

theorem mergePersonalities_total_witness:
  "style (communication (mergePersonalities [])) = Some label_insufficient
   \<and> frequency (communication (mergePersonalities [])) = Some 0
   \<and> workStyle (mergePersonalities []) = None
   \<and> plainKey (ascii ''solo'')
   \<and> workStyle (mergePersonalities
        [platformWith BLOG None None None (Some (ascii ''solo''))]) \<noteq> None"
proof -
  let ?ex = "[platformWith BLOG None None None (Some (ascii ''solo''))]"
  have p: "plainKey (ascii ''solo'')"
    by (simp add: plainKey_def isArrayIndex_def isDigit_def objectPrototypeNames_def ascii_def)
  have pl: "\<forall>w \<in> set (workStyleLabels ?ex). plainKey w"
    using p by (simp add: workStyleLabels_def truthyOnes_def platformWith_def ascii_def)
  have pn: "\<forall>w \<in> set (workStyleLabels []). plainKey w"
    by (simp add: workStyleLabels_def truthyOnes_def)
  from mergePersonalities_total [of "[]"] pn
  have "style (communication (mergePersonalities [])) = Some label_insufficient
   \<and> frequency (communication (mergePersonalities [])) = Some 0
   \<and> workStyle (mergePersonalities []) = None"
    by simp
  moreover from mergePersonalities_total [of ?ex] pl
  have "workStyle (mergePersonalities ?ex) \<noteq> None"
    by (simp add: platformWith_def truthy_def ascii_def)
  ultimately show ?thesis using p by blast
qed

end
